theory Spec2Isabelle
  imports Main
begin

section \<open>XRechnung viewer: a shallow embedding of \<open>xrechnung_viewer.py\<close>\<close>

text \<open>
  The program is a coordination layer around four external collaborators: the lxml
  parser, the Saxon XSLT engine, the file system (temporary files) and the FOP renderer
  run as a subprocess. The embedding keeps the handlers' control flow as written and
  takes the collaborators as fields of an environment record. Python \<open>bytes\<close> and
  \<open>str\<close> values are both \<open>string\<close> (a list of characters); \<open>None\<close> is
  \<open>option\<close>'s \<open>None\<close>; a raised exception is the \<open>Inl\<close> of a sum.
\<close>

subsection \<open>Exceptions\<close>

datatype exn =
    ValueError string
  | FileNotFoundError string
  | RuntimeError string
  | TypeError string
  | LibraryError string

text \<open>\<open>LibraryError\<close> stands for whatever a collaborator raises (lxml's
  \<open>XMLSyntaxError\<close>, Saxon's API error, an \<open>OSError\<close>); all are subclasses of
  \<open>Exception\<close>. \<open>str_exn\<close> is Python's \<open>str(e)\<close>.\<close>

fun str_exn :: "exn \<Rightarrow> string" where
  "str_exn (ValueError m) = m"
| "str_exn (FileNotFoundError m) = m"
| "str_exn (RuntimeError m) = m"
| "str_exn (TypeError m) = m"
| "str_exn (LibraryError m) = m"

subsection \<open>The string methods the source calls\<close>

text \<open>\<open>sub in s\<close> on strings: \<open>sub\<close> occurs in \<open>s\<close> as a contiguous run.\<close>

fun starts_with :: "string \<Rightarrow> string \<Rightarrow> bool" where
  "starts_with [] s = True"
| "starts_with (p # ps) [] = False"
| "starts_with (p # ps) (c # cs) = (p = c \<and> starts_with ps cs)"

fun str_in :: "string \<Rightarrow> string \<Rightarrow> bool" where
  "str_in sub [] = (sub = [])"
| "str_in sub (c # cs) = (starts_with sub (c # cs) \<or> str_in sub cs)"

text \<open>\<open>s.split(sep)\<close> for a non-empty separator: the pieces between the
  occurrences of \<open>sep\<close>, scanned from the left. Python raises \<open>ValueError\<close> for an
  empty separator.\<close>

function split_from :: "string \<Rightarrow> string \<Rightarrow> string list" where
  "split_from sep [] = [[]]"
| "split_from sep (c # cs) =
     (if sep \<noteq> [] \<and> starts_with sep (c # cs)
      then [] # split_from sep (drop (length sep) (c # cs))
      else (case split_from sep cs of
              [] \<Rightarrow> [[c]]
            | piece # pieces \<Rightarrow> (c # piece) # pieces))"
  by pat_completeness auto
termination
  by (relation "measure (\<lambda>(sep, s). length s)") auto

definition split :: "string \<Rightarrow> string \<Rightarrow> exn + string list" where
  "split s sep = (if sep = [] then Inl (ValueError ''empty separator'') else Inr (split_from sep s))"

text \<open>\<open>xs[0]\<close>: raises on an empty list.\<close>

definition index0 :: "'a list \<Rightarrow> exn + 'a" where
  "index0 xs = (case xs of [] \<Rightarrow> Inl (LibraryError ''list index out of range'') | x # _ \<Rightarrow> Inr x)"

text \<open>\<open>s.strip(chars)\<close>: the characters of \<open>chars\<close> are removed from both ends.\<close>

definition strip :: "string \<Rightarrow> string \<Rightarrow> string" where
  "strip s chars =
     rev (dropWhile (\<lambda>c. c \<in> set chars) (rev (dropWhile (\<lambda>c. c \<in> set chars) s)))"

text \<open>\<open>s.replace(old, new)\<close>: every non-overlapping occurrence of \<open>old\<close>, from the
  left, is replaced. With an empty \<open>old\<close> Python puts \<open>new\<close> before every character
  and at the end.\<close>

function replace_from :: "string \<Rightarrow> string \<Rightarrow> string \<Rightarrow> string" where
  "replace_from old new [] = []"
| "replace_from old new (c # cs) =
     (if old \<noteq> [] \<and> starts_with old (c # cs)
      then new @ replace_from old new (drop (length old) (c # cs))
      else c # replace_from old new cs)"
  by pat_completeness auto
termination
  by (relation "measure (\<lambda>(old, new, s). length s)") auto

definition replace :: "string \<Rightarrow> string \<Rightarrow> string \<Rightarrow> string" where
  "replace s old new =
     (if old = [] then new @ concat (map (\<lambda>c. c # new) s) else replace_from old new s)"

text \<open>\<open>sep.join(xs)\<close>.\<close>

fun join :: "string \<Rightarrow> string list \<Rightarrow> string" where
  "join sep [] = []"
| "join sep [x] = x"
| "join sep (x # y # ys) = x @ sep @ join sep (y # ys)"

subsection \<open>Document classification\<close>

text \<open>The three document types; the source uses the strings \<open>"ubl_invoice"\<close>,
  \<open>"ubl_creditnote"\<close> and \<open>"cii"\<close> as tags.\<close>

datatype doc_type = ubl_invoice | ubl_creditnote | cii

text \<open>The dictionary \<open>NAMESPACES\<close>, keyed by the three tags.\<close>

fun NAMESPACES :: "doc_type \<Rightarrow> string" where
  "NAMESPACES ubl_invoice = ''urn:oasis:names:specification:ubl:schema:xsd:Invoice-2''"
| "NAMESPACES ubl_creditnote = ''urn:oasis:names:specification:ubl:schema:xsd:CreditNote-2''"
| "NAMESPACES cii = ''urn:un:unece:uncefact:data:standard:CrossIndustryInvoice:100''"

text \<open>What lxml hands back for the root element: its namespace URI (empty for an
  unqualified element) and its local name. \<open>root.tag\<close> is the name in Clark notation,
  \<open>{namespace}local\<close>, or the bare local name when there is no namespace.\<close>

record element =
  namespace :: string
  localname :: string

definition tag :: "element \<Rightarrow> string" where
  "tag root =
     (if namespace root = [] then localname root
      else ''{'' @ namespace root @ ''}'' @ localname root)"

subsection \<open>The process state and the external collaborators\<close>

type_synonym path = string

text \<open>A compiled stylesheet (Saxon's executable) with the parameters set on it, and
  the two kinds of source \<open>transform_to_string\<close> is called with.\<close>

record executable =
  stylesheet_file :: path
  parameters :: "(string \<times> string) list"

datatype source = SourceFile path | XdmNode string

text \<open>\<open>subprocess.CompletedProcess\<close>, with \<open>capture_output=True, text=True\<close>.\<close>

record completed =
  returncode :: int
  stdout :: string
  stderr :: string

text \<open>Calls into the XSLT engine and the renderer are recorded, so that "no
  transformation was attempted" and "no subprocess was invoked" can be stated.\<close>

datatype event =
    Compile path
  | Transform executable source
  | Run "string list"

text \<open>The module-level globals of the program.\<close>

record app =
  XSL_DIR :: path
  FOP_HOME :: path
  FONTS_DIR :: path
  FOP_JAR :: "path option"
  JAVA_CMD :: "string option"
  HAS_FOP :: bool

text \<open>The state a request handler runs in: the files (regular files only, a path
  mapped to its content), the calls made so far, and the module globals.\<close>

record world =
  fs :: "path \<rightharpoonup> string"
  events :: "event list"
  globals :: app

text \<open>The collaborators. \<open>saxon_compile\<close> and \<open>saxon_parse_xml\<close> say what the
  engine raises, if anything; \<open>new_temp\<close> is the name \<open>tempfile\<close> picks (or the
  error of creating the file), \<open>write_error\<close> the error of writing and closing it;
  \<open>resolve_as_uri\<close> is \<open>p.resolve().as_uri()\<close>, which follows symbolic links and
  percent-encodes; \<open>os_run\<close> is \<open>subprocess.run\<close> from the start of the renderer
  process to the decoding of its output: the process may change any file, and the call
  either returns the completed process or raises (the program cannot be started, or
  its output cannot be decoded after it has exited).\<close>

record env =
  etree_fromstring :: "string \<Rightarrow> exn + element"
  saxon_compile :: "(path \<rightharpoonup> string) \<Rightarrow> path \<Rightarrow> exn option"
  saxon_transform :: "(path \<rightharpoonup> string) \<Rightarrow> executable \<Rightarrow> source \<Rightarrow> exn + string option"
  saxon_parse_xml :: "string \<Rightarrow> exn option"
  new_temp :: "(path \<rightharpoonup> string) \<Rightarrow> string \<Rightarrow> exn + path"
  write_error :: "(path \<rightharpoonup> string) \<Rightarrow> path \<Rightarrow> string \<Rightarrow> exn option"
  glob :: "(path \<rightharpoonup> string) \<Rightarrow> path \<Rightarrow> string \<Rightarrow> path list"
  resolve_as_uri :: "(path \<rightharpoonup> string) \<Rightarrow> path \<Rightarrow> exn + string"
  os_run :: "(path \<rightharpoonup> string) \<Rightarrow> string list \<Rightarrow> (path \<rightharpoonup> string) \<times> (exn + completed)"
  pathsep :: string

text \<open>A computation that reads and changes the state and may raise.\<close>

type_synonym 'a io = "world \<Rightarrow> world \<times> (exn + 'a)"

definition io_return :: "'a \<Rightarrow> 'a io" where
  "io_return x = (\<lambda>w. (w, Inr x))"

definition io_raise :: "exn \<Rightarrow> 'a io" where
  "io_raise e = (\<lambda>w. (w, Inl e))"

definition io_get :: "(world \<Rightarrow> 'a) \<Rightarrow> 'a io" where
  "io_get f = (\<lambda>w. (w, Inr (f w)))"

definition io_bind :: "'a io \<Rightarrow> ('a \<Rightarrow> 'b io) \<Rightarrow> 'b io" where
  "io_bind m f = (\<lambda>w. case m w of (w1, Inl e) \<Rightarrow> (w1, Inl e) | (w1, Inr x) \<Rightarrow> f x w1)"

text \<open>\<open>try: body finally: final\<close>: \<open>final\<close> runs whatever \<open>body\<close> did; an exception
  of \<open>final\<close> replaces the outcome of \<open>body\<close>.\<close>

definition try_finally :: "'a io \<Rightarrow> unit io \<Rightarrow> 'a io" where
  "try_finally body final =
     (\<lambda>w. case body w of
             (w1, r) \<Rightarrow> (case final w1 of (w2, Inl e) \<Rightarrow> (w2, Inl e) | (w2, Inr u) \<Rightarrow> (w2, r)))"

subsection \<open>Files\<close>

text \<open>\<open>pathlib\<close> on POSIX. \<open>Path(s)\<close> keeps the root (\<open>//\<close> for exactly two
  leading slashes, \<open>/\<close> for any other number) and the components between slashes
  that are neither empty nor \<open>.\<close>; a path is held as its \<open>str\<close>, which is \<open>.\<close>
  when nothing is left.\<close>

definition path_root :: "string \<Rightarrow> string" where
  "path_root s =
     (let n = length (takeWhile (\<lambda>c. c = CHR ''/'') s)
      in if n = 2 then ''//'' else if 0 < n then ''/'' else [])"

definition path_parts :: "string \<Rightarrow> string list" where
  "path_parts s = filter (\<lambda>p. p \<noteq> [] \<and> p \<noteq> ''.'') (split_from ''/'' s)"

definition Path :: "string \<Rightarrow> path" where
  "Path s =
     (if path_root s = [] \<and> path_parts s = [] then ''.''
      else path_root s @ join ''/'' (path_parts s))"

text \<open>\<open>dir / name\<close> for a path \<open>dir\<close> and a single component \<open>name\<close>: the
  component is appended, after a slash unless \<open>dir\<close> is a bare root; appended to
  the empty path \<open>.\<close> it stands alone.\<close>

definition joinpath :: "path \<Rightarrow> string \<Rightarrow> path" where
  "joinpath dir name =
     (if dir = ''.'' then name
      else if dir \<noteq> [] \<and> last dir = CHR ''/'' then dir @ name
      else dir @ ''/'' @ name)"

definition path_exists :: "path \<Rightarrow> bool io" where
  "path_exists p = io_get (\<lambda>w. fs w p \<noteq> None)"

definition getsize :: "path \<Rightarrow> nat io" where
  "getsize p = (\<lambda>w. case fs w p of
                       None \<Rightarrow> (w, Inl (FileNotFoundError p))
                     | Some d \<Rightarrow> (w, Inr (length d)))"

definition read_file :: "path \<Rightarrow> string io" where
  "read_file p = (\<lambda>w. case fs w p of
                         None \<Rightarrow> (w, Inl (FileNotFoundError p))
                       | Some d \<Rightarrow> (w, Inr d))"

definition unlink :: "path \<Rightarrow> unit io" where
  "unlink p = (\<lambda>w. case fs w p of
                      None \<Rightarrow> (w, Inl (FileNotFoundError p))
                    | Some d \<Rightarrow> (w\<lparr>fs := (fs w)(p := None)\<rparr>, Inr ()))"

text \<open>\<open>tempfile.NamedTemporaryFile(suffix=..., delete=False)\<close> creates an empty file
  and gives its name; \<open>write_file\<close> is \<open>f.write(data)\<close> followed by the close at the end
  of the \<open>with\<close> block.\<close>

definition NamedTemporaryFile :: "env \<Rightarrow> string \<Rightarrow> path io" where
  "NamedTemporaryFile env suffix =
     (\<lambda>w. case new_temp env (fs w) suffix of
             Inl e \<Rightarrow> (w, Inl e)
           | Inr p \<Rightarrow> (w\<lparr>fs := (fs w)(p \<mapsto> [])\<rparr>, Inr p))"

definition write_file :: "env \<Rightarrow> path \<Rightarrow> string \<Rightarrow> unit io" where
  "write_file env p d =
     (\<lambda>w. case write_error env (fs w) p d of
             Some e \<Rightarrow> (w, Inl e)
           | None \<Rightarrow> (w\<lparr>fs := (fs w)(p \<mapsto> d)\<rparr>, Inr ()))"

subsection \<open>The XSLT engine and the subprocess\<close>

definition compile_stylesheet :: "env \<Rightarrow> path \<Rightarrow> executable io" where
  "compile_stylesheet env p =
     (\<lambda>w. case saxon_compile env (fs w) p of
             Some e \<Rightarrow> (w\<lparr>events := events w @ [Compile p]\<rparr>, Inl e)
           | None \<Rightarrow> (w\<lparr>events := events w @ [Compile p]\<rparr>,
                       Inr \<lparr>stylesheet_file = p, parameters = []\<rparr>))"

definition set_parameter :: "executable \<Rightarrow> string \<Rightarrow> string \<Rightarrow> executable" where
  "set_parameter x name v = x\<lparr>parameters := parameters x @ [(name, v)]\<rparr>"

definition parse_xml :: "env \<Rightarrow> string \<Rightarrow> source io" where
  "parse_xml env xml_text =
     (case saxon_parse_xml env xml_text of
        Some e \<Rightarrow> io_raise e
      | None \<Rightarrow> io_return (XdmNode xml_text))"

definition transform_to_string :: "env \<Rightarrow> executable \<Rightarrow> source \<Rightarrow> string option io" where
  "transform_to_string env x src =
     (\<lambda>w. (w\<lparr>events := events w @ [Transform x src]\<rparr>, saxon_transform env (fs w) x src))"

text \<open>\<open>if not result: raise e\<close> for a result that is a string or \<open>None\<close>.\<close>

definition require :: "string option \<Rightarrow> exn \<Rightarrow> string io" where
  "require result e =
     (case result of
        None \<Rightarrow> io_raise e
      | Some s \<Rightarrow> if s = [] then io_raise e else io_return s)"

text \<open>\<open>subprocess.run(cmd, capture_output=True, text=True)\<close>; a \<open>None\<close> in the
  argument list is a \<open>TypeError\<close> before anything is started.\<close>

definition subprocess_run :: "env \<Rightarrow> string option list \<Rightarrow> completed io" where
  "subprocess_run env cmd =
     (case those cmd of
        None \<Rightarrow> io_raise (TypeError ''expected str, bytes or os.PathLike object, not NoneType'')
      | Some args \<Rightarrow>
          (\<lambda>w. case os_run env (fs w) args of
                  (fs', r) \<Rightarrow> (w\<lparr>fs := fs', events := events w @ [Run args]\<rparr>, r)))"

subsection \<open>Startup\<close>

text \<open>What the module reads when it is loaded: its own directory, the files, what
  \<open>Path.exists()\<close> answers (true for a directory as well as for a file),
  \<open>shutil.which("java")\<close> and the environment variable \<open>JAVA_HOME\<close>.\<close>

record boot =
  SCRIPT_DIR :: path
  boot_fs :: "path \<rightharpoonup> string"
  exists_at_boot :: "path \<Rightarrow> bool"
  which_java :: "string option"
  JAVA_HOME :: "string option"

definition find_fop :: "boot \<Rightarrow> path option" where
  "find_fop b =
     (let fop_jar = joinpath (joinpath (joinpath (SCRIPT_DIR b) ''lib'') ''fop'') ''fop.jar''
      in if exists_at_boot b fop_jar then Some fop_jar else None)"

definition truthy :: "string option \<Rightarrow> bool" where
  "truthy v = (case v of None \<Rightarrow> False | Some s \<Rightarrow> s \<noteq> [])"

definition find_java :: "boot \<Rightarrow> string option" where
  "find_java b =
     (if truthy (which_java b) then which_java b
      else if truthy (JAVA_HOME b)
      then (case JAVA_HOME b of
              None \<Rightarrow> None
            | Some java_home \<Rightarrow>
                (let java_exe = joinpath (joinpath (Path java_home) ''bin'') ''java''
                 in if exists_at_boot b java_exe then Some java_exe else None))
      else None)"

definition viz_dir :: "boot \<Rightarrow> path" where
  "viz_dir b = joinpath (joinpath (SCRIPT_DIR b) ''3rdparty'') ''xrechnung-visualization''"

definition startup :: "boot \<Rightarrow> app" where
  "startup b =
     \<lparr>XSL_DIR = joinpath (joinpath (viz_dir b) ''src'') ''xsl'',
      FOP_HOME = joinpath (joinpath (SCRIPT_DIR b) ''lib'') ''fop'',
      FONTS_DIR = joinpath (joinpath (viz_dir b) ''conf'') ''fonts'',
      FOP_JAR = find_fop b,
      JAVA_CMD = find_java b,
      HAS_FOP = (find_fop b \<noteq> None \<and> find_java b \<noteq> None)\<rparr>"

definition boot_world :: "boot \<Rightarrow> world" where
  "boot_world b = \<lparr>fs = boot_fs b, events = [], globals = startup b\<rparr>"

text \<open>\<open>generate_fop_config\<close>: the configuration text around the URI of the
  fonts directory.\<close>

definition font_entry :: "string \<Rightarrow> string \<Rightarrow> string \<Rightarrow> string \<Rightarrow> string" where
  \<open>font_entry fonts_url file style weight =
     ''        <font kerning="yes" embed-url="'' @ fonts_url @ ''/'' @ file @
       ''" embedding-mode="subset">'' @ [CHR 0x0A] @
     ''          <font-triplet name="SourceSerifPro" style="'' @ style @
       ''" weight="'' @ weight @ ''"/>'' @ [CHR 0x0A] @
     ''        </font>'' @ [CHR 0x0A]\<close>

definition config_xml :: "string \<Rightarrow> string" where
  \<open>config_xml fonts_url =
     (''<?xml version="1.0" encoding="UTF-8"?>'' @ [CHR 0x0A] @
      ''<fop version="1.0">'' @ [CHR 0x0A] @
      ''  <accessibility>true</accessibility>'' @ [CHR 0x0A] @
      ''  <renderers>'' @ [CHR 0x0A] @
      ''    <renderer mime="application/pdf">'' @ [CHR 0x0A] @
      ''      <fonts>'' @ [CHR 0x0A] @
      font_entry fonts_url ''SourceSerifPro-Light.ttf'' ''normal'' ''normal'' @
      font_entry fonts_url ''SourceSerifPro-SemiBold.ttf'' ''normal'' ''bold'' @
      font_entry fonts_url ''SourceSerifPro-LightItalic.ttf'' ''italic'' ''normal'' @
      font_entry fonts_url ''SourceSerifPro-SemiBoldItalic.ttf'' ''italic'' ''bold'' @
      ''      </fonts>'' @ [CHR 0x0A] @
      ''    </renderer>'' @ [CHR 0x0A] @
      ''  </renderers>'' @ [CHR 0x0A] @
      ''</fop>'' @ [CHR 0x0A])\<close>

definition generate_fop_config :: "env \<Rightarrow> string io" where
  "generate_fop_config env =
     io_bind (\<lambda>w. (w, resolve_as_uri env (fs w) (FONTS_DIR (globals w)))) (\<lambda>fonts_url.
     io_return (config_xml fonts_url))"

subsection \<open>The classifier\<close>

text \<open>\<open>detect_document_type\<close>. The body of the \<open>try\<close> is \<open>detect_body\<close>;
  \<open>except Exception: return None\<close> turns every \<open>Inl\<close> into \<open>None\<close>.\<close>

definition root_ns :: "element \<Rightarrow> exn + string" where
  "root_ns root =
     (if str_in ''}'' (tag root)
      then (case split (tag root) ''}'' of
              Inl e \<Rightarrow> Inl e
            | Inr pieces \<Rightarrow>
                (case index0 pieces of Inl e \<Rightarrow> Inl e | Inr p \<Rightarrow> Inr (strip p ''{'')))
      else Inr [])"

definition detect_body :: "env \<Rightarrow> string \<Rightarrow> exn + doc_type option" where
  "detect_body env xml_content =
     (case etree_fromstring env xml_content of
        Inl e \<Rightarrow> Inl e
      | Inr root \<Rightarrow>
          (case root_ns root of
             Inl e \<Rightarrow> Inl e
           | Inr ns \<Rightarrow>
               if ns = NAMESPACES ubl_invoice then Inr (Some ubl_invoice)
               else if ns = NAMESPACES ubl_creditnote then Inr (Some ubl_creditnote)
               else if ns = NAMESPACES cii then Inr (Some cii)
               else Inr None))"

definition detect_document_type :: "env \<Rightarrow> string \<Rightarrow> doc_type option" where
  "detect_document_type env xml_content =
     (case detect_body env xml_content of Inl e \<Rightarrow> None | Inr r \<Rightarrow> r)"

text \<open>The names an XML parser can deliver: a local name is an NCName and a namespace
  name is a URI reference, and neither production admits a brace.\<close>

definition xml_name :: "element \<Rightarrow> bool" where
  "xml_name root \<longleftrightarrow>
     CHR ''{'' \<notin> set (namespace root) \<and> CHR ''}'' \<notin> set (namespace root) \<and>
     CHR ''}'' \<notin> set (localname root)"

subsection \<open>Requests and responses\<close>

text \<open>An uploaded file (\<open>filename\<close> may be \<open>None\<close>; \<open>content\<close> is what
  \<open>file.read()\<close> returns) and the parts of a request the handlers read.\<close>

record file_storage =
  filename :: "string option"
  content :: string

record request =
  files :: "string \<rightharpoonup> file_storage"
  form :: "string \<rightharpoonup> string"

datatype jvalue = JStr string | JNull

text \<open>\<open>Json body status\<close> is \<open>jsonify(body), status\<close> (status 200 when the source
  gives none); \<open>Response\<close> is Flask's \<open>Response(data, mimetype=..., headers=...)\<close>;
  \<open>Template\<close> is \<open>render_template(name, has_fop=...)\<close>.\<close>

datatype response =
    Json "(string \<times> jvalue) list" nat
  | Response string string "(string \<times> string) list"
  | Template string bool

fun status :: "response \<Rightarrow> nat" where
  "status (Json body code) = code"
| "status (Response d mimetype headers) = 200"
| "status (Template name has_fop) = 200"

definition jopt :: "string option \<Rightarrow> jvalue" where
  "jopt v = (case v of None \<Rightarrow> JNull | Some s \<Rightarrow> JStr s)"

definition form_get :: "request \<Rightarrow> string \<Rightarrow> string \<Rightarrow> string" where
  "form_get req key dflt = (case form req key of None \<Rightarrow> dflt | Some v \<Rightarrow> v)"

fun xsl_mapping :: "doc_type \<Rightarrow> string" where
  "xsl_mapping ubl_invoice = ''ubl-invoice-xr.xsl''"
| "xsl_mapping ubl_creditnote = ''ubl-creditnote-xr.xsl''"
| "xsl_mapping cii = ''cii-xr.xsl''"

subsection \<open>The view pipeline: \<open>transform_xml\<close> and \<open>/transform\<close>\<close>

text \<open>The first transformation with its temporary source file, as both pipelines
  write it: compile, write the upload to a \<open>.xml\<close> temporary file, transform inside
  \<open>try\<close>, unlink in \<open>finally\<close> (\<open>run_first\<close>); then
  \<open>if not xr_result: raise\<close>.\<close>

definition run_first :: "env \<Rightarrow> path \<Rightarrow> string \<Rightarrow> string option io" where
  "run_first env first_xsl xml_content =
     io_bind (compile_stylesheet env first_xsl) (\<lambda>executable1.
     io_bind (NamedTemporaryFile env ''.xml'') (\<lambda>temp_xml.
     io_bind (write_file env temp_xml xml_content) (\<lambda>u.
     try_finally (transform_to_string env executable1 (SourceFile temp_xml))
                 (unlink temp_xml))))"

definition first_transformation :: "env \<Rightarrow> path \<Rightarrow> string \<Rightarrow> string io" where
  "first_transformation env first_xsl xml_content =
     io_bind (run_first env first_xsl xml_content) (\<lambda>xr_result.
     require xr_result (RuntimeError ''First XSLT transformation failed''))"

text \<open>The second transformation: compile, set the parameters, parse the intermediate
  document, transform. The view pipeline sets \<open>lang\<close>; the export pipeline sets
  \<open>lang\<close> and \<open>foengine\<close>.\<close>

definition run_second :: "env \<Rightarrow> path \<Rightarrow> (string \<times> string) list \<Rightarrow> string \<Rightarrow> string option io" where
  "run_second env xsl params xr_result =
     io_bind (compile_stylesheet env xsl) (\<lambda>executable2.
     io_bind (parse_xml env xr_result) (\<lambda>node.
     transform_to_string env
       (foldl (\<lambda>x (name, v). set_parameter x name v) executable2 params) node))"

definition transform_xml :: "env \<Rightarrow> string \<Rightarrow> string \<Rightarrow> string io" where
  "transform_xml env xml_content lang =
     (case detect_document_type env xml_content of
        None \<Rightarrow>
          io_raise (ValueError
            ''Unknown XML format. Supported: UBL Invoice, UBL CreditNote, CII/UNCEFACT'')
      | Some doc_type \<Rightarrow>
          io_bind (io_get (\<lambda>w. XSL_DIR (globals w))) (\<lambda>xsl_dir.
          let first_xsl = joinpath xsl_dir (xsl_mapping doc_type);
              html_xsl = joinpath xsl_dir ''xrechnung-html.xsl''
          in
          io_bind (path_exists first_xsl) (\<lambda>first_there.
          if \<not> first_there then io_raise (FileNotFoundError (''XSLT not found: '' @ first_xsl))
          else
          io_bind (path_exists html_xsl) (\<lambda>html_there.
          if \<not> html_there then io_raise (FileNotFoundError (''XSLT not found: '' @ html_xsl))
          else
          io_bind (first_transformation env first_xsl xml_content) (\<lambda>xr_result.
          io_bind (run_second env html_xsl [(''lang'', lang)] xr_result) (\<lambda>html_result.
          require html_result (RuntimeError ''Second XSLT transformation failed'')))))))"

definition index :: "world \<Rightarrow> world \<times> response" where
  "index w = (w, Template ''index.html'' (HAS_FOP (globals w)))"

definition transform :: "env \<Rightarrow> request \<Rightarrow> world \<Rightarrow> world \<times> response" where
  "transform env req w =
     (case files req ''file'' of
        None \<Rightarrow> (w, Json [(''error'', JStr ''No file uploaded'')] 400)
      | Some file \<Rightarrow>
          if filename file = Some [] then (w, Json [(''error'', JStr ''No file selected'')] 400)
          else
            (case transform_xml env (content file) (form_get req ''lang'' ''de'') w of
               (w1, Inr html) \<Rightarrow>
                 (w1, Json [(''html'', JStr html), (''filename'', jopt (filename file))] 200)
             | (w1, Inl e) \<Rightarrow> (w1, Json [(''error'', JStr (str_exn e))] 500)))"

subsection \<open>The export pipeline: \<open>/export-pdf\<close>\<close>

text \<open>Lines 224 to 270: classification and the two transformations to XSL-FO. There
  is no \<open>exists\<close> check on the stylesheets here.\<close>

definition fo_pipeline :: "env \<Rightarrow> string \<Rightarrow> string \<Rightarrow> string io" where
  "fo_pipeline env xml_content lang =
     (case detect_document_type env xml_content of
        None \<Rightarrow> io_raise (ValueError ''Unknown XML format'')
      | Some doc_type \<Rightarrow>
          io_bind (io_get (\<lambda>w. XSL_DIR (globals w))) (\<lambda>xsl_dir.
          let first_xsl = joinpath xsl_dir (xsl_mapping doc_type);
              pdf_xsl = joinpath xsl_dir ''xr-pdf.xsl''
          in
          io_bind (first_transformation env first_xsl xml_content) (\<lambda>xr_result.
          io_bind (run_second env pdf_xsl [(''lang'', lang), (''foengine'', ''fop'')] xr_result)
            (\<lambda>fo_result.
          require fo_result (RuntimeError ''XSL-FO transformation failed'')))))"

text \<open>Lines 272 to 286: the three temporary files, created before the \<open>try\<close>.\<close>

definition temp_files :: "env \<Rightarrow> string \<Rightarrow> (path \<times> path \<times> path) io" where
  "temp_files env fo_result =
     io_bind (NamedTemporaryFile env ''.fo'') (\<lambda>temp_fo.
     io_bind (write_file env temp_fo fo_result) (\<lambda>u.
     io_bind (NamedTemporaryFile env ''.pdf'') (\<lambda>temp_pdf.
     io_bind (NamedTemporaryFile env ''.xconf'') (\<lambda>temp_fop_config.
     io_bind (generate_fop_config env) (\<lambda>config.
     io_bind (write_file env temp_fop_config config) (\<lambda>u.
     io_return (temp_fo, temp_pdf, temp_fop_config)))))))"

text \<open>Flask's \<open>Response(data, mimetype=..., headers=...)\<close>: a header value with a
  carriage return or a line feed in it is refused with a \<open>ValueError\<close>.\<close>

definition has_newline :: "string \<Rightarrow> bool" where
  "has_newline v \<longleftrightarrow> CHR 0x0A \<in> set v \<or> CHR 0x0D \<in> set v"

definition make_response :: "string \<Rightarrow> string \<Rightarrow> (string \<times> string) list \<Rightarrow> response io" where
  "make_response d mimetype headers =
     (if list_ex (\<lambda>(k, v). has_newline v) headers
      then io_raise (ValueError ''Header values must not contain newline characters.'')
      else io_return (Response d mimetype headers))"

text \<open>The pieces of the body of the \<open>try\<close>, lines 289 to 327.\<close>

definition attachment_name :: "file_storage \<Rightarrow> string" where
  "attachment_name file =
     (if truthy (filename file)
      then (case filename file of
              None \<Rightarrow> ''xrechnung.pdf''
            | Some name \<Rightarrow> replace name ''.xml'' ''.pdf'')
      else ''xrechnung.pdf'')"

definition error_msg :: "completed \<Rightarrow> string" where
  "error_msg result =
     (if stderr result \<noteq> [] then stderr result
      else if stdout result \<noteq> [] then stdout result
      else ''FOP execution failed'')"

definition fop_cmd :: "string option \<Rightarrow> string \<Rightarrow> path \<Rightarrow> path \<Rightarrow> path \<Rightarrow> string option list" where
  "fop_cmd java_cmd classpath temp_fo temp_pdf temp_fop_config =
     [java_cmd, Some ''-cp'', Some classpath, Some ''org.apache.fop.cli.Main'',
      Some ''-c'', Some temp_fop_config, Some ''-fo'', Some temp_fo, Some ''-pdf'', Some temp_pdf]"

definition pdf_ready :: "path \<Rightarrow> bool io" where
  "pdf_ready temp_pdf =
     io_bind (path_exists temp_pdf) (\<lambda>there.
     if there then io_bind (getsize temp_pdf) (\<lambda>n. io_return (0 < n)) else io_return False)"

text \<open>Lines 289 to 306: the class path, the command and the subprocess.\<close>

definition invoke_fop :: "env \<Rightarrow> path \<Rightarrow> path \<Rightarrow> path \<Rightarrow> completed io" where
  "invoke_fop env temp_fo temp_pdf temp_fop_config =
     io_bind (io_get (\<lambda>w. glob env (fs w) (FOP_HOME (globals w)) ''*.jar'')) (\<lambda>fop_jars.
     io_bind (io_get (\<lambda>w. JAVA_CMD (globals w))) (\<lambda>java_cmd.
     subprocess_run env
       (fop_cmd java_cmd (join (pathsep env) fop_jars) temp_fo temp_pdf temp_fop_config)))"

text \<open>Lines 308 to 327: the success check and its two branches.\<close>

definition collect_pdf :: "file_storage \<Rightarrow> path \<Rightarrow> completed \<Rightarrow> response io" where
  \<open>collect_pdf file temp_pdf result =
     io_bind (pdf_ready temp_pdf) (\<lambda>ready.
     if ready
     then io_bind (read_file temp_pdf) (\<lambda>pdf_content.
          make_response pdf_content ''application/pdf''
            [(''Content-Disposition'',
              ''attachment; filename="'' @ attachment_name file @ ''"'')])
     else io_raise (RuntimeError (''FOP error: '' @ error_msg result)))\<close>

definition run_fop :: "env \<Rightarrow> file_storage \<Rightarrow> path \<Rightarrow> path \<Rightarrow> path \<Rightarrow> response io" where
  "run_fop env file temp_fo temp_pdf temp_fop_config =
     io_bind (invoke_fop env temp_fo temp_pdf temp_fop_config) (collect_pdf file temp_pdf)"

text \<open>Lines 329 to 335: the \<open>finally\<close> block.\<close>

definition unlink_if_exists :: "path \<Rightarrow> unit io" where
  "unlink_if_exists p =
     io_bind (path_exists p) (\<lambda>there. if there then unlink p else io_return ())"

definition cleanup :: "path \<Rightarrow> path \<Rightarrow> path \<Rightarrow> unit io" where
  "cleanup temp_fo temp_pdf temp_fop_config =
     io_bind (unlink_if_exists temp_fo) (\<lambda>u.
     io_bind (unlink_if_exists temp_pdf) (\<lambda>u.
     unlink_if_exists temp_fop_config))"

text \<open>Lines 272 to 335.\<close>

definition render_pdf :: "env \<Rightarrow> file_storage \<Rightarrow> string \<Rightarrow> response io" where
  "render_pdf env file fo_result =
     io_bind (temp_files env fo_result) (\<lambda>(temp_fo, temp_pdf, temp_fop_config).
     try_finally (run_fop env file temp_fo temp_pdf temp_fop_config)
                 (cleanup temp_fo temp_pdf temp_fop_config))"

text \<open>The outer \<open>try\<close> of the handler, lines 223 to 335.\<close>

definition export_body :: "env \<Rightarrow> file_storage \<Rightarrow> string \<Rightarrow> response io" where
  "export_body env file lang =
     io_bind (fo_pipeline env (content file) lang) (\<lambda>fo_result.
     render_pdf env file fo_result)"

definition export_pdf :: "env \<Rightarrow> request \<Rightarrow> world \<Rightarrow> world \<times> response" where
  "export_pdf env req w =
     (if \<not> HAS_FOP (globals w) then (w, Json [(''error'', JStr ''Apache FOP not installed'')] 500)
      else
        (case files req ''file'' of
           None \<Rightarrow> (w, Json [(''error'', JStr ''No file uploaded'')] 400)
         | Some file \<Rightarrow>
             if filename file = Some [] then (w, Json [(''error'', JStr ''No file selected'')] 400)
             else
               (case export_body env file (form_get req ''lang'' ''de'') w of
                  (w1, Inr resp) \<Rightarrow> (w1, resp)
                | (w1, Inl e) \<Rightarrow> (w1, Json [(''error'', JStr (str_exn e))] 500))))"

text \<open>The point of a request at which the renderer's \<open>try\<close> is entered: the
  uploaded file, the state there and the three temporary files, or \<open>None\<close> for a
  request that ends before.\<close>

definition render_entry ::
  "env \<Rightarrow> request \<Rightarrow> world \<Rightarrow> (file_storage \<times> world \<times> path \<times> path \<times> path) option" where
  "render_entry env req w =
     (if \<not> HAS_FOP (globals w) then None
      else
        (case files req ''file'' of
           None \<Rightarrow> None
         | Some file \<Rightarrow>
             if filename file = Some [] then None
             else
               (case fo_pipeline env (content file) (form_get req ''lang'' ''de'') w of
                  (w1, Inl e) \<Rightarrow> None
                | (w1, Inr fo_result) \<Rightarrow>
                    (case temp_files env fo_result w1 of
                       (w2, Inl e) \<Rightarrow> None
                     | (w2, Inr (temp_fo, temp_pdf, temp_fop_config)) \<Rightarrow>
                         Some (file, w2, temp_fo, temp_pdf, temp_fop_config)))))"

text \<open>The attachment header of a successful export and the body of a failed one.\<close>

definition attachment :: "string \<Rightarrow> (string \<times> string) list" where
  \<open>attachment name = [(''Content-Disposition'', ''attachment; filename="'' @ name @ ''"'')]\<close>

definition error_json :: "string \<Rightarrow> response" where
  "error_json msg = Json [(''error'', JStr msg)] 500"

subsection \<open>The server\<close>

datatype route = IndexRoute | TransformRoute | ExportPdfRoute

fun dispatch :: "env \<Rightarrow> route \<times> request \<Rightarrow> world \<Rightarrow> world \<times> response" where
  "dispatch env (IndexRoute, req) w = index w"
| "dispatch env (TransformRoute, req) w = transform env req w"
| "dispatch env (ExportPdfRoute, req) w = export_pdf env req w"

text \<open>The state after a sequence of requests, and the responses given.\<close>

fun serve :: "env \<Rightarrow> world \<Rightarrow> (route \<times> request) list \<Rightarrow> world \<times> response list" where
  "serve env w [] = (w, [])"
| "serve env w (r # rs) =
     (case dispatch env r w of
        (w1, resp) \<Rightarrow> (case serve env w1 rs of (w2, resps) \<Rightarrow> (w2, resp # resps)))"

subsection \<open>Specification predicates\<close>

text \<open>The attachment name as the spec describes it: the upload's name with its
  extension (the part from the last dot on) replaced by \<open>.pdf\<close>.\<close>

definition name_stem :: "string \<Rightarrow> string" where
  "name_stem name =
     (if CHR ''.'' \<in> set name then rev (tl (dropWhile (\<lambda>c. c \<noteq> CHR ''.'') (rev name)))
      else name)"

definition spec_pdf_name :: "string \<Rightarrow> string" where
  "spec_pdf_name name = name_stem name @ ''.pdf''"

text \<open>A computation that leaves the module globals as they are, whatever it does to
  the files and however it ends.\<close>

definition keeps_globals :: "'a io \<Rightarrow> bool" where
  "keeps_globals m \<longleftrightarrow> (\<forall>w. globals (fst (m w)) = globals w)"

subsection \<open>A concrete installation, for evaluating the handlers\<close>

definition demo_invoice :: string where
  \<open>demo_invoice =
     ''<Invoice xmlns="urn:oasis:names:specification:ubl:schema:xsd:Invoice-2"/>''\<close>

definition demo_creditnote :: string where
  \<open>demo_creditnote =
     ''<CreditNote xmlns="urn:oasis:names:specification:ubl:schema:xsd:CreditNote-2"/>''\<close>

definition demo_cii :: string where
  \<open>demo_cii =
     ''<rsm:CrossIndustryInvoice xmlns:rsm="urn:un:unece:uncefact:data:standard:CrossIndustryInvoice:100"/>''\<close>

text \<open>What a namespace-aware parser makes of the three documents above, of an invoice
  without a namespace, and of an invoice in a namespace that is not one of the
  three; anything else is not well-formed.\<close>

definition demo_parse :: "string \<Rightarrow> exn + element" where
  \<open>demo_parse b =
     (if b = demo_invoice
      then Inr \<lparr>namespace = ''urn:oasis:names:specification:ubl:schema:xsd:Invoice-2'',
                localname = ''Invoice''\<rparr>
      else if b = demo_creditnote
      then Inr \<lparr>namespace = ''urn:oasis:names:specification:ubl:schema:xsd:CreditNote-2'',
                localname = ''CreditNote''\<rparr>
      else if b = demo_cii
      then Inr \<lparr>namespace = ''urn:un:unece:uncefact:data:standard:CrossIndustryInvoice:100'',
                localname = ''CrossIndustryInvoice''\<rparr>
      else if b = ''<Invoice/>''
      then Inr \<lparr>namespace = [], localname = ''Invoice''\<rparr>
      else if b = ''<Invoice xmlns="urn:oasis:names:specification:ubl:schema:xsd:Invoice-3"/>''
      then Inr \<lparr>namespace = ''urn:oasis:names:specification:ubl:schema:xsd:Invoice-3'',
                localname = ''Invoice''\<rparr>
      else Inl (LibraryError ''Start tag expected''))\<close>

definition demo_files :: "path \<rightharpoonup> string" where
  "demo_files =
     [''/app/lib/fop/fop.jar'' \<mapsto> ''jar'',
      ''/app/3rdparty/xrechnung-visualization/src/xsl/ubl-invoice-xr.xsl'' \<mapsto> ''xsl1'',
      ''/app/3rdparty/xrechnung-visualization/src/xsl/xrechnung-html.xsl'' \<mapsto> ''xsl2'',
      ''/app/3rdparty/xrechnung-visualization/src/xsl/xr-pdf.xsl'' \<mapsto> ''xsl3'']"

definition demo_boot :: boot where
  "demo_boot =
     \<lparr>SCRIPT_DIR = ''/app'', boot_fs = demo_files,
      exists_at_boot = (\<lambda>p. demo_files p \<noteq> None),
      which_java = Some ''/usr/bin/java'', JAVA_HOME = None\<rparr>"

text \<open>A renderer that writes \<open>pdf\<close> to the path after \<open>-pdf\<close> (the last
  argument) and exits with the given code and output.\<close>

definition demo_fop ::
  "int \<Rightarrow> string \<Rightarrow> string \<Rightarrow> string \<Rightarrow>
   (path \<rightharpoonup> string) \<Rightarrow> string list \<Rightarrow> (path \<rightharpoonup> string) \<times> (exn + completed)" where
  "demo_fop code out err pdf fl args =
     (fl(last args \<mapsto> pdf), Inr \<lparr>returncode = code, stdout = out, stderr = err\<rparr>)"

text \<open>A renderer that writes the PDF and exits, with output that is not UTF-8:
  \<open>subprocess.run(..., text=True)\<close> raises when it decodes the output.\<close>

definition undecodable_fop ::
  "(path \<rightharpoonup> string) \<Rightarrow> string list \<Rightarrow> (path \<rightharpoonup> string) \<times> (exn + completed)" where
  "undecodable_fop fl args =
     (fl(last args \<mapsto> ''%PDF-1.4''),
      Inl (LibraryError ''utf-8 codec cannot decode byte 0xfc in position 7: invalid start byte''))"

text \<open>An engine whose second transformation gives an empty document, and a disk that
  is full when the renderer configuration is written.\<close>

definition second_empty ::
  "(path \<rightharpoonup> string) \<Rightarrow> executable \<Rightarrow> source \<Rightarrow> exn + string option" where
  "second_empty fl x src =
     (case src of SourceFile p \<Rightarrow> Inr (Some ''<xr:invoice/>'') | XdmNode t \<Rightarrow> Inr (Some []))"

definition first_empty ::
  "(path \<rightharpoonup> string) \<Rightarrow> executable \<Rightarrow> source \<Rightarrow> exn + string option" where
  "first_empty fl x src =
     (case src of SourceFile p \<Rightarrow> Inr None | XdmNode t \<Rightarrow> Inr (Some ''<out/>''))"

definition no_space :: "(path \<rightharpoonup> string) \<Rightarrow> path \<Rightarrow> string \<Rightarrow> exn option" where
  "no_space fl p d =
     (if p = ''/tmp/tmp0.xconf'' then Some (LibraryError ''[Errno 28] No space left on device'')
      else None)"

text \<open>A parser that accepts the one-element invoice above, an engine that needs its
  stylesheet and source files and answers with fixed documents, and a renderer that
  writes a small PDF and exits with code 0.\<close>

definition demo_env :: env where
  "demo_env =
     \<lparr>etree_fromstring = demo_parse,
      saxon_compile =
        (\<lambda>fl p. if fl p = None then Some (LibraryError (''Failed to read '' @ p)) else None),
      saxon_transform =
        (\<lambda>fl x src.
           case src of
             SourceFile p \<Rightarrow>
               if fl p = None then Inl (LibraryError (''Failed to read '' @ p))
               else Inr (Some ''<xr:invoice/>'')
           | XdmNode t \<Rightarrow> Inr (Some ''<out/>'')),
      saxon_parse_xml = (\<lambda>t. None),
      new_temp = (\<lambda>fl suffix. Inr (''/tmp/tmp0'' @ suffix)),
      write_error = (\<lambda>fl p d. None),
      glob = (\<lambda>fl dir pattern. [joinpath dir ''fop.jar'']),
      resolve_as_uri = (\<lambda>fl p. Inr (''file://'' @ p)),
      os_run = demo_fop 0 [] [] ''%PDF-1.4'',
      pathsep = '':''\<rparr>"

definition demo_world :: world where
  "demo_world = boot_world demo_boot"

text \<open>The state in which the export of \<open>demo_invoice\<close> enters the renderer's
  \<open>try\<close>: both transformations done, the three temporary files written.\<close>

definition demo_entry_world :: world where
  "demo_entry_world =
     fst (temp_files demo_env ''<out/>'' (fst (fo_pipeline demo_env demo_invoice ''de'' demo_world)))"

definition demo_request :: "string option \<Rightarrow> string \<Rightarrow> request" where
  "demo_request name bytes =
     \<lparr>files = [''file'' \<mapsto> \<lparr>filename = name, content = bytes\<rparr>], form = Map.empty\<rparr>"

section \<open>Properties\<close>

subsection \<open>String helpers\<close>

lemma str_in_single: "str_in [c] s \<longleftrightarrow> c \<in> set s"
  by (induction s) auto

lemma split_from_nonempty: "split_from sep s \<noteq> []"
  by (induction sep s rule: split_from.induct) (auto split: list.splits)

lemma split_from_single_hd:
  "hd (split_from [c] s) = takeWhile (\<lambda>x. x \<noteq> c) s"
proof (induction s)
  case Nil
  show ?case by simp
next
  case (Cons x xs)
  show ?case
  proof (cases "x = c")
    case True
    then show ?thesis by simp
  next
    case False
    with Cons split_from_nonempty [of "[c]" xs] show ?thesis
      by (cases "split_from [c] xs") auto
  qed
qed

lemma root_ns_qualified:
  assumes "namespace root \<noteq> []"
    and "CHR ''{'' \<notin> set (namespace root)" and "CHR ''}'' \<notin> set (namespace root)"
  shows "root_ns root = Inr (namespace root)"
proof -
  let ?ns = "namespace root"
  have t: "tag root = CHR ''{'' # ?ns @ CHR ''}'' # localname root"
    using assms(1) by (simp add: tag_def)
  have inn: "str_in ''}'' (tag root)"
    by (simp add: str_in_single t)
  have tw: "takeWhile (\<lambda>x. x \<noteq> CHR ''}'') (tag root) = CHR ''{'' # ?ns"
    using assms(3) by (auto simp: t takeWhile_tail)
  obtain p ps where sp: "split_from ''}'' (tag root) = p # ps"
    using split_from_nonempty [of "''}''" "tag root"] by (cases "split_from ''}'' (tag root)") auto
  have p: "p = CHR ''{'' # ?ns"
    using split_from_single_hd [of "CHR ''}''" "tag root"] sp tw by simp
  have d1: "dropWhile (\<lambda>c. c \<in> set ''{'') (CHR ''{'' # ?ns) = ?ns"
    using assms(1,2) by (cases ?ns) auto
  have d2: "dropWhile (\<lambda>c. c \<in> set ''{'') (rev ?ns) = rev ?ns"
    using assms(1,2) by (cases "rev ?ns") auto
  have "strip p ''{'' = ?ns"
    unfolding strip_def p d1 d2 by simp
  with inn sp show ?thesis
    by (simp add: root_ns_def split_def index0_def)
qed

lemma root_ns_unqualified:
  assumes "namespace root = []" and "CHR ''}'' \<notin> set (localname root)"
  shows "root_ns root = Inr []"
  using assms by (simp add: root_ns_def tag_def str_in_single)

lemma root_ns_xml_name: "xml_name root \<Longrightarrow> root_ns root = Inr (namespace root)"
  using root_ns_qualified [of root] root_ns_unqualified [of root]
  by (cases "namespace root = []") (auto simp: xml_name_def)

subsection \<open>C1: classification by the root namespace\<close>

text \<open>
  C1. For every input byte sequence: when the parser raises, the classifier returns
  \<open>None\<close> and raises nothing (its result is a plain \<open>option\<close>); when the parser
  returns a root element, the result is \<open>ubl_invoice\<close>, \<open>ubl_creditnote\<close> or
  \<open>cii\<close> exactly when the root's namespace is the UBL Invoice, the UBL CreditNote or
  the CII namespace URI, and \<open>None\<close> for every other namespace; in particular an
  unqualified root, whose namespace is the empty string, gives \<open>None\<close>. The parser is
  any function that delivers XML names.
\<close>

theorem detect_document_type_exact:
  assumes "\<And>root. etree_fromstring env xml_content = Inr root \<Longrightarrow> xml_name root"
  shows "detect_document_type env xml_content =
           (case etree_fromstring env xml_content of
              Inl e \<Rightarrow> None
            | Inr root \<Rightarrow>
                if namespace root = ''urn:oasis:names:specification:ubl:schema:xsd:Invoice-2''
                then Some ubl_invoice
                else if namespace root =
                  ''urn:oasis:names:specification:ubl:schema:xsd:CreditNote-2''
                then Some ubl_creditnote
                else if namespace root =
                  ''urn:un:unece:uncefact:data:standard:CrossIndustryInvoice:100''
                then Some cii
                else None) \<and>
         (\<forall>root. etree_fromstring env xml_content = Inr root \<and> namespace root = [] \<longrightarrow>
            detect_document_type env xml_content = None)"
proof (cases "etree_fromstring env xml_content")
  case (Inl e)
  then show ?thesis
    by (simp add: detect_document_type_def detect_body_def)
next
  case (Inr root)
  with assms have "root_ns root = Inr (namespace root)"
    by (simp add: root_ns_xml_name)
  with Inr show ?thesis
    by (auto simp: detect_document_type_def detect_body_def)
qed

lemma demo_parse_eval:
  "demo_parse demo_invoice =
     Inr \<lparr>namespace = ''urn:oasis:names:specification:ubl:schema:xsd:Invoice-2'',
          localname = ''Invoice''\<rparr>"
  "demo_parse demo_creditnote =
     Inr \<lparr>namespace = ''urn:oasis:names:specification:ubl:schema:xsd:CreditNote-2'',
          localname = ''CreditNote''\<rparr>"
  "demo_parse demo_cii =
     Inr \<lparr>namespace = ''urn:un:unece:uncefact:data:standard:CrossIndustryInvoice:100'',
          localname = ''CrossIndustryInvoice''\<rparr>"
  "demo_parse ''<Invoice/>'' = Inr \<lparr>namespace = [], localname = ''Invoice''\<rparr>"
  \<open>demo_parse ''<Invoice xmlns="urn:oasis:names:specification:ubl:schema:xsd:Invoice-3"/>'' =
     Inr \<lparr>namespace = ''urn:oasis:names:specification:ubl:schema:xsd:Invoice-3'',
          localname = ''Invoice''\<rparr>\<close>
  "demo_parse ''not xml'' = Inl (LibraryError ''Start tag expected'')"
  by (simp_all add: demo_parse_def demo_invoice_def demo_creditnote_def demo_cii_def)

theorem detect_document_type_exact_witness:
  \<open>detect_document_type demo_env demo_invoice = Some ubl_invoice \<and>
   detect_document_type demo_env demo_creditnote = Some ubl_creditnote \<and>
   detect_document_type demo_env demo_cii = Some cii \<and>
   detect_document_type demo_env ''<Invoice/>'' = None \<and>
   detect_document_type demo_env
     ''<Invoice xmlns="urn:oasis:names:specification:ubl:schema:xsd:Invoice-3"/>'' = None \<and>
   detect_document_type demo_env ''not xml'' = None\<close>
proof -
  have p: "etree_fromstring demo_env = demo_parse"
    by (simp add: demo_env_def)
  show ?thesis
    using detect_document_type_exact [where env = demo_env and xml_content = demo_invoice]
      detect_document_type_exact [where env = demo_env and xml_content = demo_creditnote]
      detect_document_type_exact [where env = demo_env and xml_content = demo_cii]
      detect_document_type_exact [where env = demo_env and xml_content = "''<Invoice/>''"]
      detect_document_type_exact [where env = demo_env and xml_content =
        \<open>''<Invoice xmlns="urn:oasis:names:specification:ubl:schema:xsd:Invoice-3"/>''\<close>]
      detect_document_type_exact [where env = demo_env and xml_content = "''not xml''"]
    by (simp add: p demo_parse_eval xml_name_def)
qed

subsection \<open>The module globals are never assigned\<close>

lemmas io_defs = io_return_def io_raise_def io_get_def io_bind_def try_finally_def

lemma keeps_return: "keeps_globals (io_return x)"
  and keeps_raise: "keeps_globals (io_raise e)"
  and keeps_get: "keeps_globals (io_get f)"
  by (simp_all add: keeps_globals_def io_defs)

lemma keeps_bind:
  assumes "keeps_globals m" and "\<And>x. keeps_globals (f x)"
  shows "keeps_globals (io_bind m f)"
  unfolding keeps_globals_def io_bind_def
proof
  fix w
  obtain w1 r where m: "m w = (w1, r)" by (cases "m w")
  with assms(1) have g1: "globals w1 = globals w"
    by (auto simp: keeps_globals_def dest: spec [of _ w])
  show "globals (fst (case m w of (w1, Inl e) \<Rightarrow> (w1, Inl e) | (w1, Inr x) \<Rightarrow> f x w1)) = globals w"
  proof (cases r)
    case (Inl e)
    with m g1 show ?thesis by simp
  next
    case (Inr x)
    with assms(2) [of x] m g1 show ?thesis
      by (simp add: keeps_globals_def)
  qed
qed

lemma keeps_finally:
  assumes "keeps_globals body" and "keeps_globals final"
  shows "keeps_globals (try_finally body final)"
  unfolding keeps_globals_def try_finally_def
proof
  fix w
  obtain w1 r where b: "body w = (w1, r)" by (cases "body w")
  obtain w2 u where f: "final w1 = (w2, u)" by (cases "final w1")
  from assms(1) b have "globals w1 = globals w"
    by (auto simp: keeps_globals_def dest: spec [of _ w])
  moreover from assms(2) f have "globals w2 = globals w1"
    by (auto simp: keeps_globals_def dest: spec [of _ w1])
  ultimately show "globals (fst (case body w of (w1, r) \<Rightarrow>
      (case final w1 of (w2, Inl e) \<Rightarrow> (w2, Inl e) | (w2, Inr u) \<Rightarrow> (w2, r)))) = globals w"
    using b f by (cases u) simp_all
qed

lemma keeps_files:
  "keeps_globals (path_exists p)" "keeps_globals (getsize p)" "keeps_globals (read_file p)"
  "keeps_globals (unlink p)" "keeps_globals (NamedTemporaryFile env suffix)"
  "keeps_globals (write_file env p d)"
  by (auto simp: keeps_globals_def path_exists_def getsize_def read_file_def unlink_def
      NamedTemporaryFile_def write_file_def io_get_def split: option.splits sum.splits)

lemma keeps_engine:
  "keeps_globals (compile_stylesheet env p)" "keeps_globals (parse_xml env t)"
  "keeps_globals (transform_to_string env x src)" "keeps_globals (require r e)"
  "keeps_globals (subprocess_run env cmd)" "keeps_globals (generate_fop_config env)"
  "keeps_globals (make_response d mimetype headers)"
  by (auto simp: keeps_globals_def compile_stylesheet_def parse_xml_def transform_to_string_def
      require_def subprocess_run_def generate_fop_config_def make_response_def io_defs
      split: option.splits sum.splits prod.splits)

lemmas keeps_rules = keeps_return keeps_raise keeps_get keeps_bind keeps_finally keeps_files keeps_engine

lemma keeps_run_first: "keeps_globals (run_first env xsl xml)"
  unfolding run_first_def by (intro keeps_rules)

lemma keeps_first_transformation: "keeps_globals (first_transformation env xsl xml)"
  unfolding first_transformation_def by (intro keeps_rules keeps_run_first)

lemma keeps_run_second: "keeps_globals (run_second env xsl params xr)"
  unfolding run_second_def by (intro keeps_rules)

lemma keeps_transform_xml: "keeps_globals (transform_xml env xml lang)"
  unfolding transform_xml_def Let_def
  by (cases "detect_document_type env xml")
     (auto intro!: keeps_rules keeps_first_transformation keeps_run_second)

lemma keeps_fo_pipeline: "keeps_globals (fo_pipeline env xml lang)"
  unfolding fo_pipeline_def Let_def
  by (cases "detect_document_type env xml")
     (auto intro!: keeps_rules keeps_first_transformation keeps_run_second)

lemma keeps_temp_files: "keeps_globals (temp_files env fo)"
  unfolding temp_files_def by (intro keeps_rules)

lemma keeps_run_fop: "keeps_globals (run_fop env file a b c)"
  unfolding run_fop_def invoke_fop_def collect_pdf_def pdf_ready_def
  by (auto intro!: keeps_rules)

lemma keeps_cleanup: "keeps_globals (cleanup a b c)"
  unfolding cleanup_def unlink_if_exists_def by (auto intro!: keeps_rules)

lemma keeps_render_pdf: "keeps_globals (render_pdf env file fo)"
  unfolding render_pdf_def
  by (auto intro!: keeps_rules keeps_temp_files keeps_run_fop keeps_cleanup)

lemma keeps_export_body: "keeps_globals (export_body env file lang)"
  unfolding export_body_def by (intro keeps_rules keeps_fo_pipeline keeps_render_pdf)

lemma transform_globals: "globals (fst (transform env req w)) = globals w"
proof (cases "files req ''file''")
  case None
  then show ?thesis by (simp add: transform_def)
next
  case (Some upload)
  let ?m = "transform_xml env (content upload) (form_get req ''lang'' ''de'')"
  obtain w1 r where m: "?m w = (w1, r)" by (cases "?m w")
  with keeps_transform_xml [of env "content upload" "form_get req ''lang'' ''de''"]
  have "globals w1 = globals w"
    by (auto simp: keeps_globals_def dest: spec [of _ w])
  with Some m show ?thesis
    by (cases r) (simp_all add: transform_def)
qed

lemma export_pdf_globals: "globals (fst (export_pdf env req w)) = globals w"
proof (cases "files req ''file''")
  case None
  then show ?thesis by (simp add: export_pdf_def)
next
  case (Some upload)
  let ?m = "export_body env upload (form_get req ''lang'' ''de'')"
  obtain w1 r where m: "?m w = (w1, r)" by (cases "?m w")
  with keeps_export_body [of env upload "form_get req ''lang'' ''de''"]
  have "globals w1 = globals w"
    by (auto simp: keeps_globals_def dest: spec [of _ w])
  with Some m show ?thesis
    by (cases r) (simp_all add: export_pdf_def)
qed

lemma dispatch_globals: "globals (fst (dispatch env r w)) = globals w"
proof (cases r)
  case (Pair rt req)
  then show ?thesis
    by (cases rt) (simp_all add: index_def transform_globals export_pdf_globals)
qed

lemma serve_globals: "globals (fst (serve env w reqs)) = globals w"
proof (induction reqs arbitrary: w)
  case Nil
  show ?case by simp
next
  case (Cons r rs)
  obtain w1 resp where d: "dispatch env r w = (w1, resp)" by (cases "dispatch env r w")
  obtain w2 resps where s: "serve env w1 rs = (w2, resps)" by (cases "serve env w1 rs")
  from d dispatch_globals [of env r w] have "globals w1 = globals w" by simp
  moreover from s Cons [of w1] have "globals w2 = globals w1" by simp
  ultimately show ?case using d s by simp
qed

subsection \<open>C10: the capability values are fixed at startup\<close>

text \<open>
  C10. \<open>FOP_JAR\<close>, \<open>JAVA_CMD\<close> and \<open>HAS_FOP\<close> are computed once, by \<open>startup\<close>,
  and no handler assigns them: after any sequence of requests to \<open>/\<close>,
  \<open>/transform\<close> and \<open>/export-pdf\<close> the state still holds the values found at
  startup, so every request is served with the same availability values.
\<close>

theorem capability_values_fixed:
  "FOP_JAR (globals (fst (serve env (boot_world b) reqs))) = find_fop b \<and>
   JAVA_CMD (globals (fst (serve env (boot_world b) reqs))) = find_java b \<and>
   HAS_FOP (globals (fst (serve env (boot_world b) reqs))) =
     (find_fop b \<noteq> None \<and> find_java b \<noteq> None)"
  by (simp add: serve_globals boot_world_def startup_def)

subsection \<open>C4: no renderer, no export\<close>

text \<open>
  C4. If the renderer archive or the Java runtime was not found at startup, then at any
  time afterwards, whatever requests were served before, an export request is answered
  with the error "Apache FOP not installed" and leaves the state as it found it: no
  file is touched and no call is recorded, so no subprocess is invoked.
\<close>

theorem export_unavailable:
  assumes "find_fop b = None \<or> find_java b = None"
  shows "export_pdf env req (fst (serve env (boot_world b) reqs)) =
           (fst (serve env (boot_world b) reqs),
            Json [(''error'', JStr ''Apache FOP not installed'')] 500)"
proof -
  have "globals (fst (serve env (boot_world b) reqs)) = startup b"
    by (simp add: serve_globals boot_world_def)
  with assms have "\<not> HAS_FOP (globals (fst (serve env (boot_world b) reqs)))"
    by (auto simp: startup_def)
  then show ?thesis by (simp add: export_pdf_def)
qed

theorem export_unavailable_witness:
  "find_java (demo_boot\<lparr>which_java := None\<rparr>) = None \<and>
   export_pdf demo_env (demo_request (Some ''invoice.xml'') demo_invoice)
     (fst (serve demo_env (boot_world (demo_boot\<lparr>which_java := None\<rparr>))
        [(TransformRoute, demo_request (Some ''invoice.xml'') demo_invoice)])) =
     (fst (serve demo_env (boot_world (demo_boot\<lparr>which_java := None\<rparr>))
        [(TransformRoute, demo_request (Some ''invoice.xml'') demo_invoice)]),
      Json [(''error'', JStr ''Apache FOP not installed'')] 500)"
proof -
  have h: "find_java (demo_boot\<lparr>which_java := None\<rparr>) = None"
    by (simp add: find_java_def demo_boot_def truthy_def)
  then have d: "find_fop (demo_boot\<lparr>which_java := None\<rparr>) = None \<or>
                find_java (demo_boot\<lparr>which_java := None\<rparr>) = None"
    by simp
  show ?thesis
    by (intro conjI) (rule h, rule export_unavailable [OF d])
qed


subsection \<open>The renderer's \<open>try\<close> block\<close>

lemma unlink_if_exists_run:
  "unlink_if_exists p w = (w\<lparr>fs := (fs w)(p := None)\<rparr>, Inr ())"
proof (cases "fs w p")
  case None
  then have "(fs w)(p := None) = fs w" by (simp add: fun_upd_idem)
  with None show ?thesis
    by (simp add: unlink_if_exists_def path_exists_def io_defs)
next
  case (Some d)
  then show ?thesis
    by (simp add: unlink_if_exists_def path_exists_def unlink_def io_defs)
qed

lemma cleanup_run:
  "cleanup a b c w = (w\<lparr>fs := (fs w)(a := None, b := None, c := None)\<rparr>, Inr ())"
  by (simp add: cleanup_def io_bind_def unlink_if_exists_run)

lemma try_cleanup:
  "try_finally body (cleanup a b c) w =
     (case body w of (w1, r) \<Rightarrow> (w1\<lparr>fs := (fs w1)(a := None, b := None, c := None)\<rparr>, r))"
  by (simp add: try_finally_def cleanup_run split: prod.splits)

lemma attachment_header_newline:
  "list_ex (\<lambda>(k, v). has_newline v) (attachment name) = has_newline name"
  by (auto simp: attachment_def has_newline_def)

lemma collect_pdf_run:
  "collect_pdf upload temp_pdf result w =
     (w, case fs w temp_pdf of
           None \<Rightarrow> Inl (RuntimeError (''FOP error: '' @ error_msg result))
         | Some pdf \<Rightarrow>
             if 0 < length pdf
             then if has_newline (attachment_name upload)
                  then Inl (ValueError ''Header values must not contain newline characters.'')
                  else Inr (Response pdf ''application/pdf''
                              (attachment (attachment_name upload)))
             else Inl (RuntimeError (''FOP error: '' @ error_msg result)))"
proof -
  have m: "make_response pdf ''application/pdf'' (attachment (attachment_name upload)) w =
             (w, if has_newline (attachment_name upload)
                 then Inl (ValueError ''Header values must not contain newline characters.'')
                 else Inr (Response pdf ''application/pdf''
                             (attachment (attachment_name upload))))" for pdf
    by (simp add: make_response_def attachment_header_newline io_defs)
  have c: "collect_pdf upload temp_pdf result =
             io_bind (pdf_ready temp_pdf) (\<lambda>ready.
               if ready
               then io_bind (read_file temp_pdf) (\<lambda>pdf_content.
                 make_response pdf_content ''application/pdf''
                   (attachment (attachment_name upload)))
               else io_raise (RuntimeError (''FOP error: '' @ error_msg result)))"
    unfolding collect_pdf_def attachment_def by (rule refl)
  show ?thesis
    by (cases "fs w temp_pdf")
       (simp_all add: c m pdf_ready_def path_exists_def getsize_def read_file_def io_defs)
qed

lemma render_entry_export:
  assumes "render_entry env req w = Some (upload, w2, a, b, c)"
  shows "export_pdf env req w =
           (case try_finally (run_fop env upload a b c) (cleanup a b c) w2 of
              (w3, Inr resp) \<Rightarrow> (w3, resp)
            | (w3, Inl e) \<Rightarrow> (w3, error_json (str_exn e)))"
  using assms
  by (auto simp: render_entry_def export_pdf_def export_body_def render_pdf_def io_bind_def
      error_json_def split: if_splits option.splits prod.splits sum.splits)

lemma render_entry_named:
  assumes "render_entry env req w = Some (upload, w2, a, b, c)"
  shows "filename upload \<noteq> Some []"
  using assms
  by (auto simp: render_entry_def split: if_splits option.splits prod.splits sum.splits)

lemma export_after_fop:
  assumes "render_entry env req w = Some (upload, w2, a, b, c)"
    and "invoke_fop env a b c w2 = (w3, Inr result)"
  shows "export_pdf env req w =
           (w3\<lparr>fs := (fs w3)(a := None, b := None, c := None)\<rparr>,
            case fs w3 b of
              None \<Rightarrow> error_json (''FOP error: '' @ error_msg result)
            | Some pdf \<Rightarrow>
                if 0 < length pdf
                then if has_newline (attachment_name upload)
                     then error_json ''Header values must not contain newline characters.''
                     else Response pdf ''application/pdf'' (attachment (attachment_name upload))
                else error_json (''FOP error: '' @ error_msg result))"
  using assms(2)
  by (simp add: render_entry_export [OF assms(1)] try_cleanup run_fop_def io_bind_def
      collect_pdf_run split: option.splits)

lemma export_fop_raises:
  assumes "render_entry env req w = Some (upload, w2, a, b, c)"
    and "invoke_fop env a b c w2 = (w3, Inl e)"
  shows "export_pdf env req w =
           (w3\<lparr>fs := (fs w3)(a := None, b := None, c := None)\<rparr>, error_json (str_exn e))"
  using assms(2)
  by (simp add: render_entry_export [OF assms(1)] try_cleanup run_fop_def io_bind_def)

lemma temp_files_removed:
  assumes "render_entry env req w = Some (upload, w2, a, b, c)"
  shows "fs (fst (export_pdf env req w)) a = None \<and>
         fs (fst (export_pdf env req w)) b = None \<and>
         fs (fst (export_pdf env req w)) c = None"
proof -
  obtain w3 r where run: "run_fop env upload a b c w2 = (w3, r)"
    by (cases "run_fop env upload a b c w2")
  then show ?thesis
    by (cases r) (simp_all add: render_entry_export [OF assms] try_cleanup)
qed

subsection \<open>Evaluating the concrete installation\<close>

lemma pair_with_snd: "snd p = r \<Longrightarrow> p = (fst p, r)"
  by (cases p) simp

lemma demo_env_sel:
  "etree_fromstring demo_env = demo_parse"
  "saxon_compile demo_env fl p =
     (if fl p = None then Some (LibraryError (''Failed to read '' @ p)) else None)"
  "saxon_transform demo_env fl x (SourceFile p) =
     (if fl p = None then Inl (LibraryError (''Failed to read '' @ p))
      else Inr (Some ''<xr:invoice/>''))"
  "saxon_transform demo_env fl x (XdmNode t) = Inr (Some ''<out/>'')"
  "saxon_parse_xml demo_env t = None"
  "new_temp demo_env fl suffix = Inr (''/tmp/tmp0'' @ suffix)"
  "write_error demo_env fl p d = None"
  "glob demo_env fl dir pattern = [joinpath dir ''fop.jar'']"
  "resolve_as_uri demo_env fl p = Inr (''file://'' @ p)"
  "os_run demo_env = demo_fop 0 [] [] ''%PDF-1.4''"
  "pathsep demo_env = '':''"
  by (simp_all add: demo_env_def)

lemmas demo_defs = demo_world_def demo_boot_def demo_files_def demo_request_def
  boot_world_def startup_def find_fop_def find_java_def truthy_def viz_dir_def joinpath_def
  demo_fop_def second_empty_def first_empty_def no_space_def

lemmas step_defs = io_defs path_exists_def getsize_def read_file_def unlink_def
  NamedTemporaryFile_def write_file_def compile_stylesheet_def set_parameter_def parse_xml_def
  transform_to_string_def require_def subprocess_run_def

lemmas handler_defs = run_first_def first_transformation_def run_second_def transform_xml_def
  transform_def fo_pipeline_def temp_files_def attachment_name_def error_msg_def fop_cmd_def
  pdf_ready_def invoke_fop_def collect_pdf_def run_fop_def unlink_if_exists_def cleanup_def
  render_pdf_def export_body_def export_pdf_def form_get_def error_json_def attachment_def
  generate_fop_config_def make_response_def has_newline_def

lemma demo_detect: "detect_document_type demo_env demo_invoice = Some ubl_invoice"
  by (simp add: detect_document_type_def detect_body_def root_ns_def tag_def split_def
      index0_def strip_def demo_env_sel demo_parse_eval)

lemma demo_detect_upd [simp]:
  "detect_document_type (demo_env\<lparr>os_run := run\<rparr>) = detect_document_type demo_env"
  "detect_document_type (demo_env\<lparr>saxon_transform := tr\<rparr>) = detect_document_type demo_env"
  "detect_document_type (demo_env\<lparr>write_error := we\<rparr>) = detect_document_type demo_env"
  by (simp_all add: fun_eq_iff detect_document_type_def detect_body_def)

lemma demo_fo: "snd (fo_pipeline demo_env demo_invoice ''de'' demo_world) = Inr ''<out/>''"
  by (simp add: demo_detect demo_env_sel fo_pipeline_def first_transformation_def run_first_def
      run_second_def step_defs demo_defs Let_def)

lemma demo_fo_upd:
  "fo_pipeline (demo_env\<lparr>os_run := run\<rparr>) xml lang w = fo_pipeline demo_env xml lang w"
  by (cases "detect_document_type demo_env xml")
     (simp_all add: fo_pipeline_def first_transformation_def run_first_def
       run_second_def step_defs Let_def)

lemma demo_temp: "snd (temp_files demo_env fo w) = Inr (''/tmp/tmp0.fo'', ''/tmp/tmp0.pdf'', ''/tmp/tmp0.xconf'')"
  by (simp add: temp_files_def generate_fop_config_def step_defs demo_env_sel)

lemma demo_temp_upd:
  "temp_files (demo_env\<lparr>os_run := run\<rparr>) fo w = temp_files demo_env fo w"
  by (simp add: temp_files_def generate_fop_config_def step_defs)

lemma demo_has_fop: "HAS_FOP (globals demo_world)"
  by (simp add: demo_defs)

lemma demo_entry:
  assumes "name \<noteq> Some []"
  shows "render_entry (demo_env\<lparr>os_run := run\<rparr>) (demo_request name demo_invoice) demo_world =
     Some (\<lparr>filename = name, content = demo_invoice\<rparr>, demo_entry_world,
           ''/tmp/tmp0.fo'', ''/tmp/tmp0.pdf'', ''/tmp/tmp0.xconf'')"
proof -
  obtain w1 where f: "fo_pipeline demo_env demo_invoice ''de'' demo_world = (w1, Inr ''<out/>'')"
    using demo_fo by (cases "fo_pipeline demo_env demo_invoice ''de'' demo_world") auto
  obtain w2 where t: "temp_files demo_env ''<out/>'' w1 = (w2, Inr (''/tmp/tmp0.fo'', ''/tmp/tmp0.pdf'', ''/tmp/tmp0.xconf''))"
    using demo_temp [of "''<out/>''" w1] by (cases "temp_files demo_env ''<out/>'' w1") auto
  from f t have "demo_entry_world = w2"
    by (simp add: demo_entry_world_def)
  with f t assms show ?thesis
    by (simp add: render_entry_def demo_has_fop demo_request_def form_get_def demo_fo_upd demo_temp_upd)
qed

lemma demo_entry_globals: "globals demo_entry_world = globals demo_world"
  using keeps_temp_files [of demo_env "''<out/>''"] keeps_fo_pipeline [of demo_env demo_invoice "''de''"]
  by (simp add: demo_entry_world_def keeps_globals_def)

lemma demo_invoke:
  "invoke_fop (demo_env\<lparr>os_run := demo_fop code out err pdf\<rparr>)
      ''/tmp/tmp0.fo'' ''/tmp/tmp0.pdf'' ''/tmp/tmp0.xconf'' demo_entry_world =
   (demo_entry_world
      \<lparr>fs := (fs demo_entry_world)(''/tmp/tmp0.pdf'' \<mapsto> pdf),
       events := events demo_entry_world @
         [Run [''/usr/bin/java'', ''-cp'', ''/app/lib/fop/fop.jar'', ''org.apache.fop.cli.Main'',
               ''-c'', ''/tmp/tmp0.xconf'', ''-fo'', ''/tmp/tmp0.fo'', ''-pdf'', ''/tmp/tmp0.pdf'']]\<rparr>,
    Inr \<lparr>returncode = code, stdout = out, stderr = err\<rparr>)"
  by (simp add: invoke_fop_def fop_cmd_def subprocess_run_def io_defs demo_entry_globals
      demo_env_sel demo_defs)

subsection \<open>C2: success is the output file, not the exit code\<close>

text \<open>
  C2, as the code has it. For an export request that reaches the renderer's \<open>try\<close>
  block and whose subprocess call returns, with whatever exit code: when the output
  file is absent or empty, the \<open>RuntimeError\<close> "FOP error: ..." is raised, which the
  handler reports as its error response; when the file exists and is not empty, its
  content is returned as the PDF response, unless the response cannot be built because
  the name of the attachment has a line break in it, and then that error is reported.
\<close>

theorem render_success_is_output_file:
  assumes "render_entry env req w = Some (upload, w2, temp_fo, temp_pdf, temp_fop_config)"
    and "invoke_fop env temp_fo temp_pdf temp_fop_config w2 = (w3, Inr result)"
  shows "snd (export_pdf env req w) =
           (case fs w3 temp_pdf of
              None \<Rightarrow> error_json (''FOP error: '' @ error_msg result)
            | Some pdf \<Rightarrow>
                if 0 < length pdf
                then if has_newline (attachment_name upload)
                     then error_json ''Header values must not contain newline characters.''
                     else Response pdf ''application/pdf'' (attachment (attachment_name upload))
                else error_json (''FOP error: '' @ error_msg result))"
  by (simp add: export_after_fop [OF assms])

theorem render_success_is_output_file_witness:
  "snd (export_pdf (demo_env\<lparr>os_run := demo_fop 1 [] ''SEVERE: font not found'' ''%PDF-1.4''\<rparr>)
         (demo_request (Some ''invoice.xml'') demo_invoice) demo_world) =
     Response ''%PDF-1.4'' ''application/pdf'' (attachment ''invoice.pdf'') \<and>
   snd (export_pdf (demo_env\<lparr>os_run := demo_fop 0 [] [] []\<rparr>)
         (demo_request (Some ''invoice.xml'') demo_invoice) demo_world) =
     error_json ''FOP error: FOP execution failed''"
proof -
  have n: "Some ''invoice.xml'' \<noteq> Some []" by simp
  have a: "attachment_name \<lparr>filename = Some ''invoice.xml'', content = demo_invoice\<rparr> = ''invoice.pdf''"
    by (simp add: attachment_name_def truthy_def replace_def)
  show ?thesis
    using render_success_is_output_file [OF demo_entry [OF n]
          demo_invoke [of 1 "[]" "''SEVERE: font not found''" "''%PDF-1.4''"]]
      render_success_is_output_file [OF demo_entry [OF n] demo_invoke [of 0 "[]" "[]" "[]"]]
    by (simp add: a error_msg_def has_newline_def)
qed

text \<open>The claim as stated fails when the call raises after the process has exited:
  the output file is there and not empty, and the request ends with the error. It
  fails as well for an upload whose name has a line break in it.\<close>

lemma demo_invoke_undecodable:
  "invoke_fop (demo_env\<lparr>os_run := undecodable_fop\<rparr>)
      ''/tmp/tmp0.fo'' ''/tmp/tmp0.pdf'' ''/tmp/tmp0.xconf'' demo_entry_world =
   (demo_entry_world
      \<lparr>fs := (fs demo_entry_world)(''/tmp/tmp0.pdf'' \<mapsto> ''%PDF-1.4''),
       events := events demo_entry_world @
         [Run [''/usr/bin/java'', ''-cp'', ''/app/lib/fop/fop.jar'', ''org.apache.fop.cli.Main'',
               ''-c'', ''/tmp/tmp0.xconf'', ''-fo'', ''/tmp/tmp0.fo'', ''-pdf'', ''/tmp/tmp0.pdf'']]\<rparr>,
    Inl (LibraryError ''utf-8 codec cannot decode byte 0xfc in position 7: invalid start byte''))"
  by (simp add: invoke_fop_def fop_cmd_def subprocess_run_def io_defs demo_entry_globals
      demo_env_sel demo_defs undecodable_fop_def)

theorem render_success_counterexample:
  "fs (fst (invoke_fop (demo_env\<lparr>os_run := undecodable_fop\<rparr>)
              ''/tmp/tmp0.fo'' ''/tmp/tmp0.pdf'' ''/tmp/tmp0.xconf'' demo_entry_world))
      ''/tmp/tmp0.pdf'' = Some ''%PDF-1.4'' \<and>
   snd (export_pdf (demo_env\<lparr>os_run := undecodable_fop\<rparr>)
         (demo_request (Some ''invoice.xml'') demo_invoice) demo_world) =
     error_json ''utf-8 codec cannot decode byte 0xfc in position 7: invalid start byte'' \<and>
   snd (export_pdf (demo_env\<lparr>os_run := demo_fop 0 [] [] ''%PDF-1.4''\<rparr>)
         (demo_request (Some [CHR ''a'', CHR 0x0A, CHR ''b'', CHR ''.'', CHR ''x'', CHR ''m'', CHR ''l''])
            demo_invoice) demo_world) =
     error_json ''Header values must not contain newline characters.''"
proof -
  have n: "Some ''invoice.xml'' \<noteq> Some []"
    "Some [CHR ''a'', CHR 0x0A, CHR ''b'', CHR ''.'', CHR ''x'', CHR ''m'', CHR ''l''] \<noteq> Some []"
    by simp_all
  have a: "has_newline (attachment_name
      \<lparr>filename = Some [CHR ''a'', CHR 0x0A, CHR ''b'', CHR ''.'', CHR ''x'', CHR ''m'', CHR ''l''],
       content = demo_invoice\<rparr>)"
    by (simp add: attachment_name_def truthy_def replace_def has_newline_def)
  show ?thesis
    by (simp add: demo_invoke_undecodable export_fop_raises [OF demo_entry [OF n(1)] demo_invoke_undecodable]
        export_after_fop [OF demo_entry [OF n(2)] demo_invoke] a)
qed

subsection \<open>C8: the name of the attachment\<close>

text \<open>What \<open>replace\<close> does to a name whose only \<open>.xml\<close> is its extension, and to a
  name without \<open>.xml\<close>.\<close>

lemma starts_with_append:
  "length p \<le> length s \<Longrightarrow> starts_with p (s @ t) = starts_with p s"
  by (induction p s rule: starts_with.induct) simp_all

lemma replace_from_absent:
  "\<not> str_in old s \<Longrightarrow> replace_from old new s = s"
  by (induction old new s rule: replace_from.induct) auto

lemma replace_from_suffix:
  assumes "old \<noteq> []" and "\<not> str_in old (stem @ butlast old)"
  shows "replace_from old new (stem @ old) = stem @ new"
  using assms(2)
proof (induction stem)
  case Nil
  have "starts_with old old" by (induction old) simp_all
  with assms(1) show ?case
    by (cases old) simp_all
next
  case (Cons c cs)
  then have no: "\<not> starts_with old (c # cs @ butlast old)" and rest: "\<not> str_in old (cs @ butlast old)"
    by simp_all
  have "old = butlast old @ [last old]" using assms(1) by simp
  then have "c # cs @ old = (c # cs @ butlast old) @ [last old]"
    by simp
  moreover have "length old \<le> length (c # cs @ butlast old)"
    by simp
  ultimately have "starts_with old (c # cs @ old) = starts_with old (c # cs @ butlast old)"
    using starts_with_append [of old "c # cs @ butlast old" "[last old]"] by simp
  with no Cons.IH [OF rest] show ?case by simp
qed

lemma replace_xml_extension:
  "\<not> str_in ''.xml'' (stem @ ''.xm'') \<Longrightarrow> replace (stem @ ''.xml'') ''.xml'' ''.pdf'' = stem @ ''.pdf''"
  using replace_from_suffix [of "''.xml''" stem "''.pdf''"] by (simp add: replace_def)

lemma replace_xml_absent:
  "\<not> str_in ''.xml'' name \<Longrightarrow> replace name ''.xml'' ''.pdf'' = name"
  by (simp add: replace_def replace_from_absent)



text \<open>
  C8, at inputs where the code does not do what the claim says. The upload
  \<open>report.XML\<close> is returned as the attachment \<open>report.XML\<close>, where replacing the
  extension gives \<open>report.pdf\<close>; the upload \<open>my.xmlfile.xml\<close> is returned as
  \<open>my.pdffile.pdf\<close>, where replacing the extension gives \<open>my.xmlfile.pdf\<close>.
\<close>

theorem attachment_name_not_extension:
  "snd (export_pdf (demo_env\<lparr>os_run := demo_fop 0 [] [] ''%PDF-1.4''\<rparr>)
         (demo_request (Some ''report.XML'') demo_invoice) demo_world) =
     Response ''%PDF-1.4'' ''application/pdf'' (attachment ''report.XML'') \<and>
   spec_pdf_name ''report.XML'' = ''report.pdf'' \<and>
   snd (export_pdf (demo_env\<lparr>os_run := demo_fop 0 [] [] ''%PDF-1.4''\<rparr>)
         (demo_request (Some ''my.xmlfile.xml'') demo_invoice) demo_world) =
     Response ''%PDF-1.4'' ''application/pdf'' (attachment ''my.pdffile.pdf'') \<and>
   spec_pdf_name ''my.xmlfile.xml'' = ''my.xmlfile.pdf''"
proof -
  have n: "Some ''report.XML'' \<noteq> Some []" "Some ''my.xmlfile.xml'' \<noteq> Some []" by simp_all
  have a: "attachment_name \<lparr>filename = Some ''report.XML'', content = demo_invoice\<rparr> = ''report.XML''"
    "attachment_name \<lparr>filename = Some ''my.xmlfile.xml'', content = demo_invoice\<rparr> = ''my.pdffile.pdf''"
    by (simp_all add: attachment_name_def truthy_def replace_def)
  have "snd (export_pdf (demo_env\<lparr>os_run := demo_fop 0 [] [] ''%PDF-1.4''\<rparr>)
         (demo_request (Some ''report.XML'') demo_invoice) demo_world) =
     Response ''%PDF-1.4'' ''application/pdf'' (attachment ''report.XML'')"
    by (simp add: export_after_fop [OF demo_entry [OF n(1)] demo_invoke] a has_newline_def)
  moreover have "snd (export_pdf (demo_env\<lparr>os_run := demo_fop 0 [] [] ''%PDF-1.4''\<rparr>)
         (demo_request (Some ''my.xmlfile.xml'') demo_invoice) demo_world) =
     Response ''%PDF-1.4'' ''application/pdf'' (attachment ''my.pdffile.pdf'')"
    by (simp add: export_after_fop [OF demo_entry [OF n(2)] demo_invoke] a has_newline_def)
  moreover have "spec_pdf_name ''report.XML'' = ''report.pdf''"
    "spec_pdf_name ''my.xmlfile.xml'' = ''my.xmlfile.pdf''"
    by (simp_all add: spec_pdf_name_def name_stem_def)
  ultimately show ?thesis by simp
qed

subsection \<open>C9: the detail of a render failure\<close>

text \<open>
  C9, as the code has it. When the subprocess call returns and the output file is
  absent or empty, the error reported is "FOP error: " followed by the standard error
  text if that is not empty, otherwise by the standard output text if that is not
  empty, otherwise by "FOP execution failed".
\<close>

theorem render_failure_detail:
  assumes "render_entry env req w = Some (upload, w2, temp_fo, temp_pdf, temp_fop_config)"
    and "invoke_fop env temp_fo temp_pdf temp_fop_config w2 = (w3, Inr result)"
    and "fs w3 temp_pdf = None \<or> fs w3 temp_pdf = Some []"
  shows "snd (export_pdf env req w) =
           error_json (''FOP error: '' @
             (if stderr result \<noteq> [] then stderr result
              else if stdout result \<noteq> [] then stdout result
              else ''FOP execution failed''))"
  using assms(3)
  by (auto simp: export_after_fop [OF assms(1,2)] error_msg_def)

theorem render_failure_detail_witness:
  "snd (export_pdf (demo_env\<lparr>os_run := demo_fop 2 ''Usage: fop'' [] []\<rparr>)
         (demo_request (Some ''invoice.xml'') demo_invoice) demo_world) =
     error_json ''FOP error: Usage: fop''"
proof -
  have n: "Some ''invoice.xml'' \<noteq> Some []" by simp
  show ?thesis
    using render_failure_detail [OF demo_entry [OF n] demo_invoke [of 2 "''Usage: fop''" "[]" "[]"]]
    by simp
qed

text \<open>The two texts are not combined: with both present only the standard error text
  is reported.\<close>

theorem render_failure_detail_counterexample:
  "snd (export_pdf (demo_env\<lparr>os_run := demo_fop 1 ''out'' ''err'' []\<rparr>)
         (demo_request (Some ''invoice.xml'') demo_invoice) demo_world) =
     error_json ''FOP error: err'' \<and>
   \<not> str_in ''out'' ''FOP error: err''"
proof -
  have n: "Some ''invoice.xml'' \<noteq> Some []" by simp
  show ?thesis
    by (simp add: export_after_fop [OF demo_entry [OF n] demo_invoke] error_msg_def)
qed



subsection \<open>C3: the temporary files of an export\<close>

text \<open>Once the \<open>try\<close> block is entered, the \<open>finally\<close> block removes the three
  files on every way out: this is \<open>temp_files_removed\<close> above. The three files are
  created and written before the \<open>try\<close>, though, and an exception there leaves them
  behind.\<close>

text \<open>
  C3, at an input where the code does not do what the claim says. The disk is full when
  the renderer configuration is written, after the FO string was produced and the
  \<open>.fo\<close> and \<open>.pdf\<close> files were created: the request ends with the error of the
  write, and the \<open>.fo\<close>, \<open>.pdf\<close> and \<open>.xconf\<close> files all remain.
\<close>

theorem temp_files_left_behind:
  "snd (export_pdf (demo_env\<lparr>write_error := no_space\<rparr>)
         (demo_request (Some ''invoice.xml'') demo_invoice) demo_world) =
     error_json ''[Errno 28] No space left on device'' \<and>
   fs (fst (export_pdf (demo_env\<lparr>write_error := no_space\<rparr>)
         (demo_request (Some ''invoice.xml'') demo_invoice) demo_world)) ''/tmp/tmp0.fo'' = Some ''<out/>'' \<and>
   fs (fst (export_pdf (demo_env\<lparr>write_error := no_space\<rparr>)
         (demo_request (Some ''invoice.xml'') demo_invoice) demo_world)) ''/tmp/tmp0.pdf'' = Some [] \<and>
   fs (fst (export_pdf (demo_env\<lparr>write_error := no_space\<rparr>)
         (demo_request (Some ''invoice.xml'') demo_invoice) demo_world)) ''/tmp/tmp0.xconf'' = Some []"
proof -
  have "export_pdf (demo_env\<lparr>write_error := no_space\<rparr>)
         (demo_request (Some ''invoice.xml'') demo_invoice) demo_world =
        (demo_world\<lparr>fs := (fs demo_world)(''/tmp/tmp0.xml'' := None, ''/tmp/tmp0.fo'' \<mapsto> ''<out/>'',
             ''/tmp/tmp0.pdf'' \<mapsto> [], ''/tmp/tmp0.xconf'' \<mapsto> []),
           events := [Compile ''/app/3rdparty/xrechnung-visualization/src/xsl/ubl-invoice-xr.xsl'',
              Transform \<lparr>stylesheet_file = ''/app/3rdparty/xrechnung-visualization/src/xsl/ubl-invoice-xr.xsl'', parameters = []\<rparr> (SourceFile ''/tmp/tmp0.xml''),
              Compile ''/app/3rdparty/xrechnung-visualization/src/xsl/xr-pdf.xsl'',
              Transform \<lparr>stylesheet_file = ''/app/3rdparty/xrechnung-visualization/src/xsl/xr-pdf.xsl'', parameters = [(''lang'', ''de''), (''foengine'', ''fop'')]\<rparr> (XdmNode ''<xr:invoice/>'')]\<rparr>,
         error_json ''[Errno 28] No space left on device'')"
    by (simp add: demo_detect demo_env_sel handler_defs step_defs demo_defs Let_def)
  then show ?thesis by simp
qed

subsection \<open>C5: an unrecognized document\<close>

lemma demo_detect_blob: "detect_document_type demo_env ''not xml'' = None"
  by (simp add: detect_document_type_def detect_body_def demo_env_sel demo_parse_eval)

text \<open>
  C5, as the code has it. A request with a \<open>file\<close> field and a file name other than
  the empty string, whose content is classified as unrecognized, is answered with
  status 500 and a message naming the unknown format, by \<open>/transform\<close> and (when the
  renderer is available) by \<open>/export-pdf\<close>; the state is left unchanged.
\<close>

theorem unknown_format_is_500:
  assumes "files req ''file'' = Some upload"
    and "filename upload \<noteq> Some []"
    and "detect_document_type env (content upload) = None"
  shows "transform env req w =
           (w, Json [(''error'', JStr
              ''Unknown XML format. Supported: UBL Invoice, UBL CreditNote, CII/UNCEFACT'')] 500) \<and>
         (HAS_FOP (globals w) \<longrightarrow>
            export_pdf env req w = (w, Json [(''error'', JStr ''Unknown XML format'')] 500))"
  using assms
  by (simp add: transform_def transform_xml_def export_pdf_def export_body_def fo_pipeline_def
      io_defs)

theorem unknown_format_is_500_witness:
  "transform demo_env (demo_request (Some ''blob.bin'') ''not xml'') demo_world =
     (demo_world, Json [(''error'', JStr
        ''Unknown XML format. Supported: UBL Invoice, UBL CreditNote, CII/UNCEFACT'')] 500) \<and>
   export_pdf demo_env (demo_request (Some ''blob.bin'') ''not xml'') demo_world =
     (demo_world, Json [(''error'', JStr ''Unknown XML format'')] 500)"
proof -
  have f: "files (demo_request (Some ''blob.bin'') ''not xml'') ''file'' =
             Some \<lparr>filename = Some ''blob.bin'', content = ''not xml''\<rparr>"
    by (simp add: demo_request_def)
  have n: "filename \<lparr>filename = Some ''blob.bin'', content = ''not xml''\<rparr> \<noteq> Some []"
    by simp
  have d: "detect_document_type demo_env (content \<lparr>filename = Some ''blob.bin'', content = ''not xml''\<rparr>) = None"
    by (simp add: demo_detect_blob)
  show ?thesis
    using unknown_format_is_500 [OF f n d, of demo_world] demo_has_fop by simp
qed

text \<open>The status is not in the 4xx class.\<close>

theorem unknown_format_counterexample:
  "detect_document_type demo_env ''not xml'' = None \<and>
   \<not> (400 \<le> status (snd (transform demo_env (demo_request (Some ''blob.bin'') ''not xml'') demo_world)) \<and>
      status (snd (transform demo_env (demo_request (Some ''blob.bin'') ''not xml'') demo_world)) < 500) \<and>
   \<not> (400 \<le> status (snd (export_pdf demo_env (demo_request (Some ''blob.bin'') ''not xml'') demo_world)) \<and>
      status (snd (export_pdf demo_env (demo_request (Some ''blob.bin'') ''not xml'') demo_world)) < 500)"
  by (simp add: demo_detect_blob demo_has_fop transform_def transform_xml_def export_pdf_def
      export_body_def fo_pipeline_def io_defs demo_request_def)

subsection \<open>C6: the messages of the two stages\<close>

lemma require_falsy: "\<not> truthy r \<Longrightarrow> require r e = io_raise e"
  by (cases r) (simp_all add: truthy_def require_def)

lemma first_transformation_empty:
  assumes "run_first env xsl xml w = (w1, Inr r1)" and "\<not> truthy r1"
  shows "first_transformation env xsl xml w =
           (w1, Inl (RuntimeError ''First XSLT transformation failed''))"
  using assms by (simp add: first_transformation_def io_bind_def require_falsy io_raise_def)

lemma first_transformation_some:
  assumes "run_first env xsl xml w = (w1, Inr (Some xr))" and "xr \<noteq> []"
  shows "first_transformation env xsl xml w = (w1, Inr xr)"
  using assms by (simp add: first_transformation_def io_bind_def require_def io_return_def)

lemma run_first_fs:
  assumes "run_first env xsl xml w = (w1, Inr r1)"
  shows "globals w1 = globals w"
  using keeps_run_first [of env xsl xml] assms
  by (auto simp: keeps_globals_def dest: spec [of _ w])

text \<open>
  C6, as the code has it. In both pipelines an empty or absent result of the first
  transformation raises "First XSLT transformation failed". An empty or absent result of
  the second transformation raises "Second XSLT transformation failed" in the view
  pipeline and "XSL-FO transformation failed" in the export pipeline. (The view
  pipeline gets to its transformations only when both stylesheets exist.)
\<close>

theorem stage_messages:
  assumes "detect_document_type env xml = Some dt"
    and "first_xsl = joinpath (XSL_DIR (globals w)) (xsl_mapping dt)"
    and "html_xsl = joinpath (XSL_DIR (globals w)) ''xrechnung-html.xsl''"
    and "pdf_xsl = joinpath (XSL_DIR (globals w)) ''xr-pdf.xsl''"
    and "run_first env first_xsl xml w = (w1, Inr r1)"
  shows
    "(\<not> truthy r1 \<longrightarrow>
        (fs w first_xsl \<noteq> None \<and> fs w html_xsl \<noteq> None \<longrightarrow>
           transform_xml env xml lang w =
             (w1, Inl (RuntimeError ''First XSLT transformation failed''))) \<and>
        fo_pipeline env xml lang w =
          (w1, Inl (RuntimeError ''First XSLT transformation failed''))) \<and>
     (r1 = Some xr \<and> xr \<noteq> [] \<and>
      run_second env html_xsl [(''lang'', lang)] xr w1 = (w2, Inr r2) \<and> \<not> truthy r2 \<and>
      fs w first_xsl \<noteq> None \<and> fs w html_xsl \<noteq> None \<longrightarrow>
        transform_xml env xml lang w =
          (w2, Inl (RuntimeError ''Second XSLT transformation failed''))) \<and>
     (r1 = Some xr \<and> xr \<noteq> [] \<and>
      run_second env pdf_xsl [(''lang'', lang), (''foengine'', ''fop'')] xr w1 = (w3, Inr r3) \<and>
      \<not> truthy r3 \<longrightarrow>
        fo_pipeline env xml lang w =
          (w3, Inl (RuntimeError ''XSL-FO transformation failed'')))"
proof (intro conjI impI)
  assume "\<not> truthy r1"
  with assms(5) have f: "first_transformation env first_xsl xml w =
      (w1, Inl (RuntimeError ''First XSLT transformation failed''))"
    by (rule first_transformation_empty)
  with assms(1,2,4) show "fo_pipeline env xml lang w =
      (w1, Inl (RuntimeError ''First XSLT transformation failed''))"
    by (simp add: fo_pipeline_def io_defs Let_def)
  assume "fs w first_xsl \<noteq> None \<and> fs w html_xsl \<noteq> None"
  with f assms(1,2,3) show "transform_xml env xml lang w =
      (w1, Inl (RuntimeError ''First XSLT transformation failed''))"
    by (simp add: transform_xml_def io_defs Let_def path_exists_def)
next
  assume a: "r1 = Some xr \<and> xr \<noteq> [] \<and>
      run_second env html_xsl [(''lang'', lang)] xr w1 = (w2, Inr r2) \<and> \<not> truthy r2 \<and>
      fs w first_xsl \<noteq> None \<and> fs w html_xsl \<noteq> None"
  with assms(5) have f: "first_transformation env first_xsl xml w = (w1, Inr xr)"
    by (simp add: first_transformation_some)
  from a have "require r2 (RuntimeError ''Second XSLT transformation failed'') =
      io_raise (RuntimeError ''Second XSLT transformation failed'')"
    by (simp add: require_falsy)
  with f a assms(1,2,3) show "transform_xml env xml lang w =
      (w2, Inl (RuntimeError ''Second XSLT transformation failed''))"
    by (simp add: transform_xml_def io_defs Let_def path_exists_def)
next
  assume a: "r1 = Some xr \<and> xr \<noteq> [] \<and>
      run_second env pdf_xsl [(''lang'', lang), (''foengine'', ''fop'')] xr w1 = (w3, Inr r3) \<and>
      \<not> truthy r3"
  with assms(5) have f: "first_transformation env first_xsl xml w = (w1, Inr xr)"
    by (simp add: first_transformation_some)
  from a have "require r3 (RuntimeError ''XSL-FO transformation failed'') =
      io_raise (RuntimeError ''XSL-FO transformation failed'')"
    by (simp add: require_falsy)
  with f a assms(1,2,4) show "fo_pipeline env xml lang w =
      (w3, Inl (RuntimeError ''XSL-FO transformation failed''))"
    by (simp add: fo_pipeline_def io_defs Let_def)
qed

lemma demo_paths:
  "joinpath (XSL_DIR (globals demo_world)) (xsl_mapping ubl_invoice) =
     ''/app/3rdparty/xrechnung-visualization/src/xsl/ubl-invoice-xr.xsl''"
  "joinpath (XSL_DIR (globals demo_world)) ''xrechnung-html.xsl'' =
     ''/app/3rdparty/xrechnung-visualization/src/xsl/xrechnung-html.xsl''"
  "joinpath (XSL_DIR (globals demo_world)) ''xr-pdf.xsl'' =
     ''/app/3rdparty/xrechnung-visualization/src/xsl/xr-pdf.xsl''"
  by (simp_all add: demo_defs)

lemma demo_stylesheets:
  "fs demo_world ''/app/3rdparty/xrechnung-visualization/src/xsl/ubl-invoice-xr.xsl'' \<noteq> None"
  "fs demo_world ''/app/3rdparty/xrechnung-visualization/src/xsl/xrechnung-html.xsl'' \<noteq> None"
  "fs demo_world ''/app/3rdparty/xrechnung-visualization/src/xsl/xr-pdf.xsl'' \<noteq> None"
  by (simp_all add: demo_defs)

lemma demo_first_empty:
  "snd (run_first (demo_env\<lparr>saxon_transform := first_empty\<rparr>)
          ''/app/3rdparty/xrechnung-visualization/src/xsl/ubl-invoice-xr.xsl''
          demo_invoice demo_world) = Inr None"
  by (simp add: run_first_def step_defs demo_env_sel demo_defs)

lemma demo_first_some:
  "snd (run_first (demo_env\<lparr>saxon_transform := second_empty\<rparr>)
          ''/app/3rdparty/xrechnung-visualization/src/xsl/ubl-invoice-xr.xsl''
          demo_invoice demo_world) = Inr (Some ''<xr:invoice/>'')"
  by (simp add: run_first_def step_defs demo_env_sel demo_defs)

lemma demo_second_empty:
  "snd (run_second (demo_env\<lparr>saxon_transform := second_empty\<rparr>)
          ''/app/3rdparty/xrechnung-visualization/src/xsl/xrechnung-html.xsl'' params xr
          (fst (run_first (demo_env\<lparr>saxon_transform := second_empty\<rparr>)
             ''/app/3rdparty/xrechnung-visualization/src/xsl/ubl-invoice-xr.xsl''
             demo_invoice demo_world))) = Inr (Some [])"
  "snd (run_second (demo_env\<lparr>saxon_transform := second_empty\<rparr>)
          ''/app/3rdparty/xrechnung-visualization/src/xsl/xr-pdf.xsl'' params xr
          (fst (run_first (demo_env\<lparr>saxon_transform := second_empty\<rparr>)
             ''/app/3rdparty/xrechnung-visualization/src/xsl/ubl-invoice-xr.xsl''
             demo_invoice demo_world))) = Inr (Some [])"
  by (simp_all add: run_second_def run_first_def step_defs demo_env_sel demo_defs)

theorem stage_messages_witness:
  "snd (transform_xml (demo_env\<lparr>saxon_transform := first_empty\<rparr>) demo_invoice ''de'' demo_world) =
     Inl (RuntimeError ''First XSLT transformation failed'') \<and>
   snd (fo_pipeline (demo_env\<lparr>saxon_transform := first_empty\<rparr>) demo_invoice ''de'' demo_world) =
     Inl (RuntimeError ''First XSLT transformation failed'') \<and>
   snd (transform_xml (demo_env\<lparr>saxon_transform := second_empty\<rparr>) demo_invoice ''de'' demo_world) =
     Inl (RuntimeError ''Second XSLT transformation failed'') \<and>
   snd (fo_pipeline (demo_env\<lparr>saxon_transform := second_empty\<rparr>) demo_invoice ''de'' demo_world) =
     Inl (RuntimeError ''XSL-FO transformation failed'')"
proof -
  let ?e1 = "demo_env\<lparr>saxon_transform := first_empty\<rparr>"
  let ?e2 = "demo_env\<lparr>saxon_transform := second_empty\<rparr>"
  let ?first = "''/app/3rdparty/xrechnung-visualization/src/xsl/ubl-invoice-xr.xsl''"
  let ?html = "''/app/3rdparty/xrechnung-visualization/src/xsl/xrechnung-html.xsl''"
  let ?pdf = "''/app/3rdparty/xrechnung-visualization/src/xsl/xr-pdf.xsl''"
  have d1: "detect_document_type ?e1 demo_invoice = Some ubl_invoice"
    and d2: "detect_document_type ?e2 demo_invoice = Some ubl_invoice"
    by (simp_all add: demo_detect)
  note p = demo_paths [symmetric]
  have r1: "run_first ?e1 ?first demo_invoice demo_world =
              (fst (run_first ?e1 ?first demo_invoice demo_world), Inr None)"
    by (rule pair_with_snd) (rule demo_first_empty)
  have r2: "run_first ?e2 ?first demo_invoice demo_world =
              (fst (run_first ?e2 ?first demo_invoice demo_world), Inr (Some ''<xr:invoice/>''))"
    by (rule pair_with_snd) (rule demo_first_some)
  let ?w1 = "fst (run_first ?e2 ?first demo_invoice demo_world)"
  have s2: "run_second ?e2 ?html [(''lang'', ''de'')] ''<xr:invoice/>'' ?w1 =
              (fst (run_second ?e2 ?html [(''lang'', ''de'')] ''<xr:invoice/>'' ?w1), Inr (Some []))"
    by (rule pair_with_snd) (rule demo_second_empty)
  have s3: "run_second ?e2 ?pdf [(''lang'', ''de''), (''foengine'', ''fop'')] ''<xr:invoice/>'' ?w1 =
              (fst (run_second ?e2 ?pdf [(''lang'', ''de''), (''foengine'', ''fop'')] ''<xr:invoice/>'' ?w1),
               Inr (Some []))"
    by (rule pair_with_snd) (rule demo_second_empty)
  have t: "\<not> truthy None" "\<not> truthy (Some [])" "''<xr:invoice/>'' \<noteq> []"
    by (simp_all add: truthy_def)
  from stage_messages [where lang = "''de''", OF d1 p(1) p(2) p(3) r1] t demo_stylesheets
  have a: "transform_xml ?e1 demo_invoice ''de'' demo_world =
             (fst (run_first ?e1 ?first demo_invoice demo_world),
              Inl (RuntimeError ''First XSLT transformation failed''))"
    and b: "fo_pipeline ?e1 demo_invoice ''de'' demo_world =
             (fst (run_first ?e1 ?first demo_invoice demo_world),
              Inl (RuntimeError ''First XSLT transformation failed''))"
    by blast+
  from stage_messages [where lang = "''de''" and xr = "''<xr:invoice/>''", OF d2 p(1) p(2) p(3) r2]
    s2 s3 t demo_stylesheets
  have c: "transform_xml ?e2 demo_invoice ''de'' demo_world =
             (fst (run_second ?e2 ?html [(''lang'', ''de'')] ''<xr:invoice/>'' ?w1),
              Inl (RuntimeError ''Second XSLT transformation failed''))"
    and d: "fo_pipeline ?e2 demo_invoice ''de'' demo_world =
             (fst (run_second ?e2 ?pdf [(''lang'', ''de''), (''foengine'', ''fop'')] ''<xr:invoice/>'' ?w1),
              Inl (RuntimeError ''XSL-FO transformation failed''))"
    by blast+
  show ?thesis
    unfolding a b c d by simp
qed

text \<open>The export pipeline does not use the view pipeline's message for its second
  stage.\<close>

theorem stage_messages_counterexample:
  "snd (transform (demo_env\<lparr>saxon_transform := second_empty\<rparr>)
         (demo_request (Some ''invoice.xml'') demo_invoice) demo_world) =
     error_json ''Second XSLT transformation failed'' \<and>
   snd (export_pdf (demo_env\<lparr>saxon_transform := second_empty\<rparr>)
         (demo_request (Some ''invoice.xml'') demo_invoice) demo_world) =
     error_json ''XSL-FO transformation failed'' \<and>
   \<not> str_in ''econd'' ''XSL-FO transformation failed''"
  by (simp add: demo_detect demo_env_sel handler_defs step_defs demo_defs Let_def)

subsection \<open>C7: a missing stylesheet\<close>

text \<open>The view pipeline checks both stylesheets before it does anything else.\<close>

lemma view_stylesheet_missing:
  assumes "detect_document_type env xml = Some dt"
    and "fs w (joinpath (XSL_DIR (globals w)) (xsl_mapping dt)) = None \<or>
         fs w (joinpath (XSL_DIR (globals w)) ''xrechnung-html.xsl'') = None"
  shows "\<exists>p. transform_xml env xml lang w = (w, Inl (FileNotFoundError (''XSLT not found: '' @ p)))"
  using assms
  by (auto simp: transform_xml_def io_defs Let_def path_exists_def)

text \<open>
  C7, at an input where the code does not do what the claim says. With \<open>xr-pdf.xsl\<close>
  absent, the export handler compiles the first stylesheet and runs the first
  transformation, and only then fails, with the engine's error for the stylesheet it
  cannot read; it raises no "XSLT not found". The view handler, with
  \<open>xrechnung-html.xsl\<close> absent, fails with "XSLT not found" and calls nothing.
\<close>

theorem export_missing_stylesheet:
  "export_pdf demo_env (demo_request (Some ''invoice.xml'') demo_invoice)
      (demo_world\<lparr>fs := (fs demo_world)
          (''/app/3rdparty/xrechnung-visualization/src/xsl/xr-pdf.xsl'' := None)\<rparr>) =
     (demo_world\<lparr>fs := (fs demo_world)
          (''/app/3rdparty/xrechnung-visualization/src/xsl/xr-pdf.xsl'' := None,
           ''/tmp/tmp0.xml'' := None),
        events :=
          [Compile ''/app/3rdparty/xrechnung-visualization/src/xsl/ubl-invoice-xr.xsl'',
           Transform \<lparr>stylesheet_file =
                        ''/app/3rdparty/xrechnung-visualization/src/xsl/ubl-invoice-xr.xsl'',
                      parameters = []\<rparr> (SourceFile ''/tmp/tmp0.xml''),
           Compile ''/app/3rdparty/xrechnung-visualization/src/xsl/xr-pdf.xsl'']\<rparr>,
      error_json
        ''Failed to read /app/3rdparty/xrechnung-visualization/src/xsl/xr-pdf.xsl'') \<and>
   transform demo_env (demo_request (Some ''invoice.xml'') demo_invoice)
      (demo_world\<lparr>fs := (fs demo_world)
          (''/app/3rdparty/xrechnung-visualization/src/xsl/xrechnung-html.xsl'' := None)\<rparr>) =
     (demo_world\<lparr>fs := (fs demo_world)
          (''/app/3rdparty/xrechnung-visualization/src/xsl/xrechnung-html.xsl'' := None)\<rparr>,
      error_json
        ''XSLT not found: /app/3rdparty/xrechnung-visualization/src/xsl/xrechnung-html.xsl'')"
  by (simp add: demo_detect demo_env_sel handler_defs step_defs demo_defs Let_def)

end
